theory Spec2Isabelle
  imports Main "HOL-Library.Word"
begin

unbundle bit_operations_syntax

section \<open>The operating system as seen by time-sync.cpp\<close>

text \<open>
  The program talks to the Windows service control manager, to the steady clock, to the
  scheduler (\<open>sleep_for\<close>) and to the command interpreter (\<open>system\<close>). None of these is
  code of the program, so each is an oracle: the reply to the n-th call of an API is looked
  up in a record of reply functions, and every call the program makes is logged, with the
  clock reading at which it was made, in the trace of the world. Any run of the program is
  the run of the model under the oracle that replays what the system answered.
\<close>

type_synonym DWORD = "32 word"

text \<open>A non-null service handle. The null handle is \<open>None\<close> of \<open>SC_HANDLE option\<close>.\<close>

type_synonym SC_HANDLE = nat

text \<open>
  Constants of the Windows SDK headers (winsvc.h, winerror.h) that the source includes
  through windows.h, with the values these headers give them.
\<close>

definition SC_MANAGER_CONNECT :: DWORD where "SC_MANAGER_CONNECT = 0x0001"
definition SERVICE_QUERY_STATUS :: DWORD where "SERVICE_QUERY_STATUS = 0x0004"
definition SERVICE_START :: DWORD where "SERVICE_START = 0x0010"
definition SERVICE_STOP :: DWORD where "SERVICE_STOP = 0x0020"
definition SERVICE_CONTROL_STOP :: DWORD where "SERVICE_CONTROL_STOP = 0x00000001"
definition SERVICE_STOPPED :: DWORD where "SERVICE_STOPPED = 0x00000001"
definition SERVICE_START_PENDING :: DWORD where "SERVICE_START_PENDING = 0x00000002"
definition SERVICE_STOP_PENDING :: DWORD where "SERVICE_STOP_PENDING = 0x00000003"
definition SERVICE_RUNNING :: DWORD where "SERVICE_RUNNING = 0x00000004"
definition ERROR_ACCESS_DENIED :: DWORD where "ERROR_ACCESS_DENIED = 5"
definition ERROR_SERVICE_ALREADY_RUNNING :: DWORD where "ERROR_SERVICE_ALREADY_RUNNING = 1056"
definition ERROR_SERVICE_NOT_ACTIVE :: DWORD where "ERROR_SERVICE_NOT_ACTIVE = 1062"

text \<open>
  The replies of the system. \<open>Inl e\<close> is a failed call after which \<open>GetLastError\<close> yields
  \<open>e\<close>; \<open>Inr\<close> carries what a successful call hands back. Durations are in nanoseconds,
  the tick of \<open>std::chrono::steady_clock\<close>: a status query takes
  \<open>QueryServiceStatusEx_time\<close>, and \<open>sleep_for\<close> blocks for the requested duration plus
  \<open>sleep_for_extra\<close> (it never returns early). Both are arbitrary, so that time spent
  elsewhere in a round of the polling loop counts with the query or the sleep next to it;
  the other calls take no time in the model, and no property below depends on how long
  they take.
\<close>

record os =
  OpenSCManager_reply :: "nat \<Rightarrow> DWORD + SC_HANDLE"
  OpenService_reply :: "nat \<Rightarrow> DWORD + SC_HANDLE"
  ControlService_reply :: "nat \<Rightarrow> DWORD + unit"
  StartService_reply :: "nat \<Rightarrow> DWORD + unit"
  QueryServiceStatusEx_reply :: "nat \<Rightarrow> DWORD + DWORD"
  QueryServiceStatusEx_time :: "nat \<Rightarrow> nat"
  sleep_for_extra :: "nat \<Rightarrow> nat"
  system_reply :: "int"

datatype event =
    EvOpenSCManager DWORD "DWORD + SC_HANDLE"
  | EvOpenService SC_HANDLE string DWORD "DWORD + SC_HANDLE"
  | EvControlService SC_HANDLE DWORD "DWORD + unit"
  | EvStartService SC_HANDLE "DWORD + unit"
  | EvQueryServiceStatusEx SC_HANDLE "DWORD + DWORD"
  | EvCloseServiceHandle SC_HANDLE
  | EvSleep nat
  | EvSystem string int
  | EvPrintErrorMessage string DWORD
  | EvTimeoutMessage DWORD
  | EvWcout string
  | EvWcerr string

record world =
  clock :: nat
  last_error :: DWORD
  n_OpenSCManager :: nat
  n_OpenService :: nat
  n_ControlService :: nat
  n_StartService :: nat
  n_QueryServiceStatusEx :: nat
  n_sleep :: nat
  trace :: "(nat \<times> event) list"

definition world0 :: world where
  "world0 = \<lparr>clock = 0, last_error = 0, n_OpenSCManager = 0, n_OpenService = 0,
     n_ControlService = 0, n_StartService = 0, n_QueryServiceStatusEx = 0, n_sleep = 0,
     trace = []\<rparr>"

definition log_event :: "event \<Rightarrow> world \<Rightarrow> world" where
  "log_event e w = w\<lparr>trace := trace w @ [(clock w, e)]\<rparr>"

definition set_error :: "DWORD + 'a \<Rightarrow> world \<Rightarrow> world" where
  "set_error r w = (case r of Inl e \<Rightarrow> w\<lparr>last_error := e\<rparr> | Inr _ \<Rightarrow> w)"

definition handle_of :: "DWORD + SC_HANDLE \<Rightarrow> SC_HANDLE option" where
  "handle_of r = (case r of Inl _ \<Rightarrow> None | Inr h \<Rightarrow> Some h)"

definition succeeded :: "DWORD + 'a \<Rightarrow> bool" where
  "succeeded r = (case r of Inl _ \<Rightarrow> False | Inr _ \<Rightarrow> True)"

definition OpenSCManager :: "os \<Rightarrow> DWORD \<Rightarrow> world \<Rightarrow> SC_HANDLE option \<times> world" where
  "OpenSCManager sys access w =
     (let r = OpenSCManager_reply sys (n_OpenSCManager w)
      in (handle_of r,
          set_error r ((log_event (EvOpenSCManager access r) w)
            \<lparr>n_OpenSCManager := Suc (n_OpenSCManager w)\<rparr>)))"

definition OpenService ::
  "os \<Rightarrow> SC_HANDLE \<Rightarrow> string \<Rightarrow> DWORD \<Rightarrow> world \<Rightarrow> SC_HANDLE option \<times> world" where
  "OpenService sys scm name access w =
     (let r = OpenService_reply sys (n_OpenService w)
      in (handle_of r,
          set_error r ((log_event (EvOpenService scm name access r) w)
            \<lparr>n_OpenService := Suc (n_OpenService w)\<rparr>)))"

definition ControlService :: "os \<Rightarrow> SC_HANDLE \<Rightarrow> DWORD \<Rightarrow> world \<Rightarrow> bool \<times> world" where
  "ControlService sys h control w =
     (let r = ControlService_reply sys (n_ControlService w)
      in (succeeded r,
          set_error r ((log_event (EvControlService h control r) w)
            \<lparr>n_ControlService := Suc (n_ControlService w)\<rparr>)))"

definition StartService :: "os \<Rightarrow> SC_HANDLE \<Rightarrow> world \<Rightarrow> bool \<times> world" where
  "StartService sys h w =
     (let r = StartService_reply sys (n_StartService w)
      in (succeeded r,
          set_error r ((log_event (EvStartService h r) w)
            \<lparr>n_StartService := Suc (n_StartService w)\<rparr>)))"

text \<open>
  \<open>QueryServiceStatusEx\<close> fills \<open>ssp\<close>; the program reads only \<open>ssp.dwCurrentState\<close>,
  which is what a successful reply carries. The call is logged when it is issued and the
  clock has moved on by the time it returns.
\<close>

definition QueryServiceStatusEx :: "os \<Rightarrow> SC_HANDLE \<Rightarrow> world \<Rightarrow> (DWORD + DWORD) \<times> world" where
  "QueryServiceStatusEx sys h w =
     (let r = QueryServiceStatusEx_reply sys (n_QueryServiceStatusEx w)
      in (r,
          set_error r ((log_event (EvQueryServiceStatusEx h r) w)
            \<lparr>n_QueryServiceStatusEx := Suc (n_QueryServiceStatusEx w),
             clock := clock w + QueryServiceStatusEx_time sys (n_QueryServiceStatusEx w)\<rparr>)))"

definition CloseServiceHandle :: "SC_HANDLE \<Rightarrow> world \<Rightarrow> world" where
  "CloseServiceHandle h w = log_event (EvCloseServiceHandle h) w"

definition GetLastError :: "world \<Rightarrow> DWORD" where
  "GetLastError w = last_error w"

definition steady_clock_now :: "world \<Rightarrow> nat" where
  "steady_clock_now w = clock w"

definition sleep_for :: "os \<Rightarrow> nat \<Rightarrow> world \<Rightarrow> world" where
  "sleep_for sys d w =
     (log_event (EvSleep d) w)
       \<lparr>n_sleep := Suc (n_sleep w), clock := clock w + d + sleep_for_extra sys (n_sleep w)\<rparr>"

definition system :: "os \<Rightarrow> string \<Rightarrow> world \<Rightarrow> int \<times> world" where
  "system sys cmd w = (system_reply sys, log_event (EvSystem cmd (system_reply sys)) w)"

definition wcout :: "string \<Rightarrow> world \<Rightarrow> world" where
  "wcout s w = log_event (EvWcout s) w"

definition wcerr :: "string \<Rightarrow> world \<Rightarrow> world" where
  "wcerr s w = log_event (EvWcerr s) w"

section \<open>The program\<close>

text \<open>
  \<open>PrintErrorMessage\<close> writes the name of the failed function and the error code, with
  the system's text for it, to the error stream.
\<close>

definition PrintErrorMessage :: "string \<Rightarrow> DWORD \<Rightarrow> world \<Rightarrow> world" where
  "PrintErrorMessage failedFunction errorCode w =
     log_event (EvPrintErrorMessage failedFunction errorCode) w"

text \<open>
  \<open>ServiceHandleDeleter\<close>, the deleter of \<open>ScHandlePtr\<close>: it runs when the owning
  pointer goes out of scope and closes the handle unless it is null.
\<close>

definition ServiceHandleDeleter :: "SC_HANDLE option \<Rightarrow> world \<Rightarrow> world" where
  "ServiceHandleDeleter handle w =
     (case handle of None \<Rightarrow> w | Some h \<Rightarrow> CloseServiceHandle h w)"

definition NS_PER_MS :: nat where "NS_PER_MS = 1000000"

text \<open>\<open>duration_cast<milliseconds>\<close> of a non-negative tick count: truncation.\<close>

definition duration_cast_ms :: "nat \<Rightarrow> nat" where
  "duration_cast_ms ns = ns div NS_PER_MS"

definition milliseconds :: "nat \<Rightarrow> nat" where
  "milliseconds ms = ms * NS_PER_MS"

text \<open>
  The body of the \<open>while (true)\<close> loop of \<open>WaitForServiceStatus\<close>. \<open>elapsed.count()\<close>
  is a signed 64-bit count, never negative on a steady clock, and \<open>timeoutMillis\<close> an
  unsigned 32-bit one that the comparison converts to 64 bits: the comparison is made on
  the numbers that they denote.
\<close>

function WaitForServiceStatus_loop ::
  "os \<Rightarrow> SC_HANDLE \<Rightarrow> DWORD \<Rightarrow> DWORD \<Rightarrow> nat \<Rightarrow> world \<Rightarrow> bool \<times> world" where
  "WaitForServiceStatus_loop sys serviceHandle targetStatus timeoutMillis startTime w =
     (case QueryServiceStatusEx sys serviceHandle w of
        (Inl err, w1) \<Rightarrow> (False, PrintErrorMessage ''QueryServiceStatusEx'' (GetLastError w1) w1)
      | (Inr dwCurrentState, w1) \<Rightarrow>
          if dwCurrentState = targetStatus then (True, w1)
          else
            let elapsed = duration_cast_ms (steady_clock_now w1 - startTime)
            in if elapsed \<ge> unat timeoutMillis
               then (False, log_event (EvTimeoutMessage targetStatus) w1)
               else WaitForServiceStatus_loop sys serviceHandle targetStatus timeoutMillis
                      startTime (sleep_for sys (milliseconds 250) w1))"
  by pat_completeness auto
termination
proof (relation "measure (\<lambda>(sys, h, target, timeout, start, w).
                   unat timeout * NS_PER_MS + start - clock w)", goal_cases)
  case 1
  show ?case by simp
next
  case (2 sys h target timeout start w x1 w1 st elapsed)
  from 2(1) have c1: "clock w1 = clock w + QueryServiceStatusEx_time sys (n_QueryServiceStatusEx w)"
    by (auto simp: QueryServiceStatusEx_def Let_def set_error_def log_event_def split: sum.splits)
  from 2(5) have "\<not> unat timeout \<le> (clock w1 - start) div NS_PER_MS"
    unfolding 2(4) duration_cast_ms_def steady_clock_now_def .
  then have "(clock w1 - start) div NS_PER_MS < unat timeout"
    by linarith
  then have "clock w1 - start < unat timeout * NS_PER_MS"
    by (simp add: div_less_iff_less_mult NS_PER_MS_def)
  then have lt: "clock w1 < unat timeout * NS_PER_MS + start"
    by linarith
  have gt: "clock (sleep_for sys (milliseconds 250) w1) > clock w1"
    by (simp add: sleep_for_def log_event_def milliseconds_def NS_PER_MS_def)
  from c1 have ge: "clock w \<le> clock w1"
    by linarith
  from lt gt ge
  have "unat timeout * NS_PER_MS + start - clock (sleep_for sys (milliseconds 250) w1)
          < unat timeout * NS_PER_MS + start - clock w"
    by linarith
  then show ?case
    by (simp only: in_measure prod.case)
qed

text \<open>
  \<open>WaitForServiceStatus\<close>: the start time is read once, before the loop. The default
  argument \<open>timeoutMillis = 30000\<close> is what both callers get.
\<close>

definition WaitForServiceStatus ::
  "os \<Rightarrow> SC_HANDLE \<Rightarrow> DWORD \<Rightarrow> DWORD \<Rightarrow> world \<Rightarrow> bool \<times> world" where
  "WaitForServiceStatus sys serviceHandle targetStatus timeoutMillis w =
     (let startTime = steady_clock_now w
      in WaitForServiceStatus_loop sys serviceHandle targetStatus timeoutMillis startTime w)"

definition default_timeoutMillis :: DWORD where
  "default_timeoutMillis = 30000"

text \<open>
  The lifetime of a \<open>ScHandlePtr\<close> local: the rest of the function body runs while the
  pointer owns the handle, and on whichever return the body takes, the deleter runs after
  the return value is computed. Locals are destroyed in reverse order of construction, so
  the scope of \<open>serviceHandle\<close> lies inside the scope of \<open>scmHandle\<close>. In the two
  functions below, the body of a scope is written as a function of the world and applied
  to the world that the call which produced the handle left.
\<close>

definition ScHandlePtr_scope ::
  "SC_HANDLE option \<Rightarrow> (world \<Rightarrow> bool \<times> world) \<Rightarrow> world \<Rightarrow> bool \<times> world" where
  "ScHandlePtr_scope handle body w =
     (case body w of (result, w') \<Rightarrow> (result, ServiceHandleDeleter handle w'))"

definition StopServiceByName :: "os \<Rightarrow> string \<Rightarrow> world \<Rightarrow> bool \<times> world" where
  "StopServiceByName sys serviceName w =
     (case OpenSCManager sys SC_MANAGER_CONNECT w of (scmHandle, w1) \<Rightarrow>
        ScHandlePtr_scope scmHandle (\<lambda>w1.
          case scmHandle of
            None \<Rightarrow> (False, PrintErrorMessage ''OpenSCManager'' (GetLastError w1) w1)
          | Some scm \<Rightarrow>
             (case OpenService sys scm serviceName (SERVICE_STOP OR SERVICE_QUERY_STATUS) w1 of
                (serviceHandle, w2) \<Rightarrow>
                ScHandlePtr_scope serviceHandle (\<lambda>w2.
                  case serviceHandle of
                    None \<Rightarrow> (False, PrintErrorMessage ''OpenService'' (GetLastError w2) w2)
                  | Some svc \<Rightarrow>
                     (case ControlService sys svc SERVICE_CONTROL_STOP w2 of (ok, w3) \<Rightarrow>
                        if \<not> ok then
                          let err = GetLastError w3
                          in if err \<noteq> ERROR_SERVICE_NOT_ACTIVE
                             then (False, PrintErrorMessage ''ControlService'' err w3)
                             else WaitForServiceStatus sys svc SERVICE_STOPPED default_timeoutMillis
                                    (wcout ''Stop request sent. Waiting for service to terminate...'' w3)
                        else WaitForServiceStatus sys svc SERVICE_STOPPED default_timeoutMillis
                               (wcout ''Stop request sent. Waiting for service to terminate...'' w3)))
                  w2)) w1)"

definition StartServiceByName :: "os \<Rightarrow> string \<Rightarrow> world \<Rightarrow> bool \<times> world" where
  "StartServiceByName sys serviceName w =
     (case OpenSCManager sys SC_MANAGER_CONNECT w of (scmHandle, w1) \<Rightarrow>
        ScHandlePtr_scope scmHandle (\<lambda>w1.
          case scmHandle of
            None \<Rightarrow> (False, PrintErrorMessage ''OpenSCManager'' (GetLastError w1) w1)
          | Some scm \<Rightarrow>
             (case OpenService sys scm serviceName (SERVICE_START OR SERVICE_QUERY_STATUS) w1 of
                (serviceHandle, w2) \<Rightarrow>
                ScHandlePtr_scope serviceHandle (\<lambda>w2.
                  case serviceHandle of
                    None \<Rightarrow> (False, PrintErrorMessage ''OpenService'' (GetLastError w2) w2)
                  | Some svc \<Rightarrow>
                     (case StartService sys svc w2 of (ok, w3) \<Rightarrow>
                        if \<not> ok then
                          let err = GetLastError w3
                          in if err \<noteq> ERROR_SERVICE_ALREADY_RUNNING
                             then (False, PrintErrorMessage ''StartService'' err w3)
                             else (True, wcout ''Service is already running.'' w3)
                        else WaitForServiceStatus sys svc SERVICE_RUNNING default_timeoutMillis
                               (wcout ''Start request sent. Waiting for service to run...'' w3)))
                  w2)) w1)"

definition serviceName_w32time :: string where
  "serviceName_w32time = ''w32time''"

definition resync_command :: string where
  "resync_command = ''w32tm /resync /nowait''"

text \<open>
  \<open>main\<close> returns the exit status of the process and the world it leaves. In the texts
  written, \<open>CHR 0x27\<close> is the apostrophe and \<open>CHR 0x0A\<close> the line feed; the line
  feed of \<open>std::endl\<close> that ends each write is left out.
\<close>

definition main :: "os \<Rightarrow> world \<Rightarrow> int \<times> world" where
  "main sys w =
     (let serviceName = serviceName_w32time;
          w1 = wcout (''--- Attempting to stop the '' @ [CHR 0x27] @ serviceName
                        @ [CHR 0x27] @ '' service... ---'') w
      in case StopServiceByName sys serviceName w1 of (stopped, w2) \<Rightarrow>
           let w9 =
             (if stopped then
                let w3 = wcout (''Service successfully stopped.'' @ [CHR 0x0A]) w2;
                    w4 = wcout (''--- Attempting to start the '' @ [CHR 0x27] @ serviceName
                                  @ [CHR 0x27] @ '' service... ---'') w3
                in case StartServiceByName sys serviceName w4 of (started, w5) \<Rightarrow>
                     if started then
                       let w6 = wcout (''Service successfully started.'' @ [CHR 0x0A]) w5;
                           w7 = wcout ''--- Resyncing system time... ---'' w6
                       in case system sys resync_command w7 of (resyncResult, w8) \<Rightarrow>
                            if resyncResult = 0
                            then wcout ''Time resync command sent successfully.'' w8
                            else wcerr ''Failed to execute time resync command.'' w8
                     else wcerr ''Failed to start the service.'' w5
              else wcerr ''Failed to stop the service. Aborting.'' w2)
           in (0, wcout (CHR 0x0A # ''Done.'') w9))"

section \<open>Observations on traces\<close>

text \<open>The events that a call added to the trace of the world it started in.\<close>

definition new_events :: "world \<Rightarrow> world \<Rightarrow> (nat \<times> event) list" where
  "new_events w w' = drop (length (trace w)) (trace w')"

text \<open>Some status query on \<open>h\<close> reported the state \<open>T\<close>.\<close>

definition reported :: "SC_HANDLE \<Rightarrow> DWORD \<Rightarrow> (nat \<times> event) list \<Rightarrow> bool" where
  "reported h T evs = list_ex (\<lambda>(t, e). e = EvQueryServiceStatusEx h (Inr T)) evs"

text \<open>Some status query on \<open>h\<close> issued no later than \<open>deadline\<close> reported the state \<open>T\<close>.\<close>

definition reported_by :: "nat \<Rightarrow> SC_HANDLE \<Rightarrow> DWORD \<Rightarrow> (nat \<times> event) list \<Rightarrow> bool" where
  "reported_by deadline h T evs =
     list_ex (\<lambda>(t, e). e = EvQueryServiceStatusEx h (Inr T) \<and> t \<le> deadline) evs"

text \<open>The timeout message was written.\<close>

definition timed_out :: "(nat \<times> event) list \<Rightarrow> bool" where
  "timed_out evs = list_ex (\<lambda>(t, e). case e of EvTimeoutMessage _ \<Rightarrow> True | _ \<Rightarrow> False) evs"

text \<open>The replies to the status queries, and the durations asked of \<open>sleep_for\<close>, in order.\<close>

fun query_replies :: "(nat \<times> event) list \<Rightarrow> (DWORD + DWORD) list" where
  "query_replies [] = []"
| "query_replies ((t, EvQueryServiceStatusEx h r) # evs) = r # query_replies evs"
| "query_replies (_ # evs) = query_replies evs"

fun sleeps :: "(nat \<times> event) list \<Rightarrow> nat list" where
  "sleeps [] = []"
| "sleeps ((t, EvSleep d) # evs) = d # sleeps evs"
| "sleeps (_ # evs) = sleeps evs"

text \<open>
  What the timeout test had found when an event followed it: the loop sleeps, for 250 ms,
  only after reading an elapsed time below the timeout, and writes the timeout message only
  after reading one that reaches it; both elapsed times count from \<open>st\<close>.
\<close>

fun check_ok :: "nat \<Rightarrow> DWORD \<Rightarrow> nat \<times> event \<Rightarrow> bool" where
  "check_ok st tmo (t, EvSleep d) = (d = milliseconds 250 \<and> duration_cast_ms (t - st) < unat tmo)"
| "check_ok st tmo (t, EvTimeoutMessage T) = (unat tmo \<le> duration_cast_ms (t - st))"
| "check_ok st tmo _ = True"

text \<open>The elapsed time that the loop reads after the status query it issues in \<open>w\<close>.\<close>

definition elapsed_after_query :: "os \<Rightarrow> nat \<Rightarrow> world \<Rightarrow> nat" where
  "elapsed_after_query sys st w =
     duration_cast_ms (clock w + QueryServiceStatusEx_time sys (n_QueryServiceStatusEx w) - st)"

text \<open>A status query is issued no later than \<open>D\<close>.\<close>

fun issued_by :: "nat \<Rightarrow> nat \<times> event \<Rightarrow> bool" where
  "issued_by D (t, EvQueryServiceStatusEx h r) = (t \<le> D)"
| "issued_by D _ = True"

definition loop_events ::
  "os \<Rightarrow> SC_HANDLE \<Rightarrow> DWORD \<Rightarrow> DWORD \<Rightarrow> nat \<Rightarrow> world \<Rightarrow> (nat \<times> event) list" where
  "loop_events sys h T tmo st w = new_events w (snd (WaitForServiceStatus_loop sys h T tmo st w))"

text \<open>
  The handle discipline of a run. The list holds the handles that are open, each as often
  as it was handed out. Opening adds the new handle; \<open>OpenService\<close>, the control and
  start requests and the status query need their handle to be open; closing needs it
  open and removes it once. \<open>None\<close> is a use of a handle that is not open.
\<close>

fun apply_event :: "event \<Rightarrow> SC_HANDLE list \<Rightarrow> SC_HANDLE list option" where
  "apply_event (EvOpenSCManager access r) H =
     Some (case r of Inl _ \<Rightarrow> H | Inr h \<Rightarrow> h # H)"
| "apply_event (EvOpenService scm name access r) H =
     (if scm \<in> set H then Some (case r of Inl _ \<Rightarrow> H | Inr h \<Rightarrow> h # H) else None)"
| "apply_event (EvControlService h control r) H = (if h \<in> set H then Some H else None)"
| "apply_event (EvStartService h r) H = (if h \<in> set H then Some H else None)"
| "apply_event (EvQueryServiceStatusEx h r) H = (if h \<in> set H then Some H else None)"
| "apply_event (EvCloseServiceHandle h) H = (if h \<in> set H then Some (remove1 h H) else None)"
| "apply_event _ H = Some H"

fun run_handles :: "(nat \<times> event) list \<Rightarrow> SC_HANDLE list \<Rightarrow> SC_HANDLE list option" where
  "run_handles [] H = Some H"
| "run_handles ((t, e) # evs) H =
     (case apply_event e H of None \<Rightarrow> None | Some H' \<Rightarrow> run_handles evs H')"

text \<open>The commands handed to \<open>system\<close>, in order.\<close>

fun system_calls :: "(nat \<times> event) list \<Rightarrow> string list" where
  "system_calls [] = []"
| "system_calls ((t, EvSystem cmd r) # evs) = cmd # system_calls evs"
| "system_calls (_ # evs) = system_calls evs"

text \<open>An event that the polling loop on handle \<open>h\<close> can add.\<close>

fun wait_event :: "SC_HANDLE \<Rightarrow> nat \<times> event \<Rightarrow> bool" where
  "wait_event h (t, EvQueryServiceStatusEx h' r) = (h' = h)"
| "wait_event h (t, EvSleep d) = True"
| "wait_event h (t, EvPrintErrorMessage f e) = True"
| "wait_event h (t, EvTimeoutMessage T) = True"
| "wait_event h _ = False"

text \<open>
  The world in which \<open>StopServiceByName\<close> starts to wait, when both handles were opened
  and the stop request did not end the function.
\<close>

definition stop_requested :: "os \<Rightarrow> string \<Rightarrow> SC_HANDLE \<Rightarrow> SC_HANDLE \<Rightarrow> world \<Rightarrow> world" where
  "stop_requested sys serviceName scm svc w =
     wcout ''Stop request sent. Waiting for service to terminate...''
       (snd (ControlService sys svc SERVICE_CONTROL_STOP
         (snd (OpenService sys scm serviceName (SERVICE_STOP OR SERVICE_QUERY_STATUS)
           (snd (OpenSCManager sys SC_MANAGER_CONNECT w))))))"

definition start_requested :: "os \<Rightarrow> string \<Rightarrow> SC_HANDLE \<Rightarrow> SC_HANDLE \<Rightarrow> world \<Rightarrow> world" where
  "start_requested sys serviceName scm svc w =
     wcout ''Start request sent. Waiting for service to run...''
       (snd (StartService sys svc
         (snd (OpenService sys scm serviceName (SERVICE_START OR SERVICE_QUERY_STATUS)
           (snd (OpenSCManager sys SC_MANAGER_CONNECT w))))))"

text \<open>The two calls that \<open>main\<close> makes, each in the world in which \<open>main\<close> makes it.\<close>

definition main_stop :: "os \<Rightarrow> world \<Rightarrow> bool \<times> world" where
  "main_stop sys w =
     StopServiceByName sys serviceName_w32time
       (wcout (''--- Attempting to stop the '' @ [CHR 0x27] @ serviceName_w32time
                 @ [CHR 0x27] @ '' service... ---'') w)"

definition main_start :: "os \<Rightarrow> world \<Rightarrow> bool \<times> world" where
  "main_start sys w =
     StartServiceByName sys serviceName_w32time
       (wcout (''--- Attempting to start the '' @ [CHR 0x27] @ serviceName_w32time
                 @ [CHR 0x27] @ '' service... ---'')
          (wcout (''Service successfully stopped.'' @ [CHR 0x0A]) (snd (main_stop sys w))))"

text \<open>The world after \<open>main\<close> has run the resync command.\<close>

definition resynced :: "os \<Rightarrow> world \<Rightarrow> world" where
  "resynced sys w =
     snd (system sys resync_command
       (wcout ''--- Resyncing system time... ---''
         (wcout (''Service successfully started.'' @ [CHR 0x0A]) (snd (main_start sys w)))))"

section \<open>Systems used as examples\<close>

text \<open>
  The service reports \<open>SERVICE_STOP_PENDING\<close> to the first status query and
  \<open>SERVICE_STOPPED\<close> to the later ones; queries take no time and sleeps last 250 ms.
\<close>

definition sys_late :: os where
  "sys_late =
     \<lparr>OpenSCManager_reply = (\<lambda>n. Inr 1), OpenService_reply = (\<lambda>n. Inr 2),
      ControlService_reply = (\<lambda>n. Inr ()), StartService_reply = (\<lambda>n. Inr ()),
      QueryServiceStatusEx_reply =
        (\<lambda>n. if n = 0 then Inr SERVICE_STOP_PENDING else Inr SERVICE_STOPPED),
      QueryServiceStatusEx_time = (\<lambda>n. 0), sleep_for_extra = (\<lambda>n. 0), system_reply = 0\<rparr>"

text \<open>
  The service stays \<open>SERVICE_RUNNING\<close>; queries take no time; the first sleep lasts
  5 ms longer than asked and the later ones 15 ms longer.
\<close>

definition sys_oversleep :: os where
  "sys_oversleep =
     \<lparr>OpenSCManager_reply = (\<lambda>n. Inr 1), OpenService_reply = (\<lambda>n. Inr 2),
      ControlService_reply = (\<lambda>n. Inr ()), StartService_reply = (\<lambda>n. Inr ()),
      QueryServiceStatusEx_reply = (\<lambda>n. Inr SERVICE_RUNNING),
      QueryServiceStatusEx_time = (\<lambda>n. 0),
      sleep_for_extra = (\<lambda>n. if n = 0 then 5000000 else 15000000), system_reply = 0\<rparr>"

text \<open>The second status query fails with \<open>ERROR_ACCESS_DENIED\<close>.\<close>

definition sys_query_fails :: os where
  "sys_query_fails =
     \<lparr>OpenSCManager_reply = (\<lambda>n. Inr 1), OpenService_reply = (\<lambda>n. Inr 2),
      ControlService_reply = (\<lambda>n. Inr ()), StartService_reply = (\<lambda>n. Inr ()),
      QueryServiceStatusEx_reply =
        (\<lambda>n. if n = 0 then Inr SERVICE_STOP_PENDING else Inl ERROR_ACCESS_DENIED),
      QueryServiceStatusEx_time = (\<lambda>n. 0), sleep_for_extra = (\<lambda>n. 0), system_reply = 0\<rparr>"

text \<open>
  The service is running and is restarted without trouble: its state is
  \<open>SERVICE_STOP_PENDING\<close>, then \<open>SERVICE_STOPPED\<close>, then
  \<open>SERVICE_START_PENDING\<close>, then \<open>SERVICE_RUNNING\<close>; the resync command
  returns 0.
\<close>

definition sys_healthy :: os where
  "sys_healthy =
     \<lparr>OpenSCManager_reply = (\<lambda>n. Inr 1), OpenService_reply = (\<lambda>n. Inr 2),
      ControlService_reply = (\<lambda>n. Inr ()), StartService_reply = (\<lambda>n. Inr ()),
      QueryServiceStatusEx_reply =
        (\<lambda>n. if n = 0 then Inr SERVICE_STOP_PENDING else if n = 1 then Inr SERVICE_STOPPED
             else if n = 2 then Inr SERVICE_START_PENDING else Inr SERVICE_RUNNING),
      QueryServiceStatusEx_time = (\<lambda>n. 0), sleep_for_extra = (\<lambda>n. 0), system_reply = 0\<rparr>"

text \<open>The service control manager refuses the connection.\<close>

definition sys_scm_down :: os where
  "sys_scm_down = sys_healthy\<lparr>OpenSCManager_reply := (\<lambda>n. Inl ERROR_ACCESS_DENIED)\<rparr>"

text \<open>
  The service is stopped already: the stop request is rejected with
  \<open>ERROR_SERVICE_NOT_ACTIVE\<close> and the status queries report \<open>SERVICE_STOPPED\<close>.
\<close>

definition sys_not_active :: os where
  "sys_not_active =
     sys_healthy\<lparr>ControlService_reply := (\<lambda>n. Inl ERROR_SERVICE_NOT_ACTIVE),
                 QueryServiceStatusEx_reply := (\<lambda>n. Inr SERVICE_STOPPED)\<rparr>"


text \<open>The start request is rejected with \<open>ERROR_SERVICE_ALREADY_RUNNING\<close>.\<close>

definition sys_already_running :: os where
  "sys_already_running =
     sys_healthy\<lparr>StartService_reply := (\<lambda>n. Inl ERROR_SERVICE_ALREADY_RUNNING)\<rparr>"

text \<open>The stop request is rejected with \<open>ERROR_ACCESS_DENIED\<close>.\<close>

definition sys_stop_denied :: os where
  "sys_stop_denied = sys_healthy\<lparr>ControlService_reply := (\<lambda>n. Inl ERROR_ACCESS_DENIED)\<rparr>"

text \<open>The start request is rejected with \<open>ERROR_ACCESS_DENIED\<close>.\<close>

definition sys_start_denied :: os where
  "sys_start_denied = sys_healthy\<lparr>StartService_reply := (\<lambda>n. Inl ERROR_ACCESS_DENIED)\<rparr>"

text \<open>The restart goes well and the resync command returns 1.\<close>

definition sys_resync_fails :: os where
  "sys_resync_fails = sys_healthy\<lparr>system_reply := 1\<rparr>"

section \<open>Facts about the system calls\<close>

declare WaitForServiceStatus_loop.simps [simp del]

lemma fst_Query [simp]:
  "fst (QueryServiceStatusEx sys h w) = QueryServiceStatusEx_reply sys (n_QueryServiceStatusEx w)"
  by (simp add: QueryServiceStatusEx_def Let_def)

lemma Query_fields [simp]:
  "trace (snd (QueryServiceStatusEx sys h w)) =
     trace w @ [(clock w, EvQueryServiceStatusEx h (QueryServiceStatusEx_reply sys (n_QueryServiceStatusEx w)))]"
  "clock (snd (QueryServiceStatusEx sys h w)) =
     clock w + QueryServiceStatusEx_time sys (n_QueryServiceStatusEx w)"
  "n_QueryServiceStatusEx (snd (QueryServiceStatusEx sys h w)) = Suc (n_QueryServiceStatusEx w)"
  "n_sleep (snd (QueryServiceStatusEx sys h w)) = n_sleep w"
  by (simp_all add: QueryServiceStatusEx_def Let_def set_error_def log_event_def split: sum.splits)

lemma Query_last_error [simp]:
  "QueryServiceStatusEx_reply sys (n_QueryServiceStatusEx w) = Inl e \<Longrightarrow>
     GetLastError (snd (QueryServiceStatusEx sys h w)) = e"
  by (simp add: QueryServiceStatusEx_def Let_def set_error_def log_event_def GetLastError_def)

lemma sleep_fields [simp]:
  "trace (sleep_for sys d w) = trace w @ [(clock w, EvSleep d)]"
  "clock (sleep_for sys d w) = clock w + d + sleep_for_extra sys (n_sleep w)"
  "n_QueryServiceStatusEx (sleep_for sys d w) = n_QueryServiceStatusEx w"
  "n_sleep (sleep_for sys d w) = Suc (n_sleep w)"
  by (simp_all add: sleep_for_def log_event_def)

lemma log_fields [simp]:
  "trace (log_event e w) = trace w @ [(clock w, e)]"
  "clock (log_event e w) = clock w"
  "n_QueryServiceStatusEx (log_event e w) = n_QueryServiceStatusEx w"
  "n_sleep (log_event e w) = n_sleep w"
  by (simp_all add: log_event_def)

lemma loop_failed:
  assumes "QueryServiceStatusEx_reply sys (n_QueryServiceStatusEx w) = Inl e"
  shows "WaitForServiceStatus_loop sys h T tmo st w =
           (False, PrintErrorMessage ''QueryServiceStatusEx'' e (snd (QueryServiceStatusEx sys h w)))"
  using assms Query_last_error [OF assms, of h]
  by (subst WaitForServiceStatus_loop.simps) (simp add: split_beta split: sum.splits)

lemma loop_reached:
  assumes "QueryServiceStatusEx_reply sys (n_QueryServiceStatusEx w) = Inr T"
  shows "WaitForServiceStatus_loop sys h T tmo st w = (True, snd (QueryServiceStatusEx sys h w))"
  using assms
  by (subst WaitForServiceStatus_loop.simps) (simp add: split_beta split: sum.splits)

section \<open>The polling loop, one round at a time\<close>

lemma loop_timeout:
  assumes "QueryServiceStatusEx_reply sys (n_QueryServiceStatusEx w) = Inr s" "s \<noteq> T"
    and "unat tmo \<le> elapsed_after_query sys st w"
  shows "WaitForServiceStatus_loop sys h T tmo st w =
           (False, log_event (EvTimeoutMessage T) (snd (QueryServiceStatusEx sys h w)))"
  using assms
  by (subst WaitForServiceStatus_loop.simps)
     (simp add: split_beta Let_def steady_clock_now_def elapsed_after_query_def split: sum.splits)

lemma loop_again:
  assumes "QueryServiceStatusEx_reply sys (n_QueryServiceStatusEx w) = Inr s" "s \<noteq> T"
    and "elapsed_after_query sys st w < unat tmo"
  shows "WaitForServiceStatus_loop sys h T tmo st w =
           WaitForServiceStatus_loop sys h T tmo st
             (sleep_for sys (milliseconds 250) (snd (QueryServiceStatusEx sys h w)))"
  using assms
  by (subst WaitForServiceStatus_loop.simps)
     (simp add: split_beta Let_def steady_clock_now_def elapsed_after_query_def split: sum.splits)


lemma loop_cases_induct [consumes 0, case_names failed reached timeout again]:
  fixes tmo :: DWORD
  assumes failed: "\<And>w e. QueryServiceStatusEx_reply sys (n_QueryServiceStatusEx w) = Inl e \<Longrightarrow> P w"
    and reached: "\<And>w. QueryServiceStatusEx_reply sys (n_QueryServiceStatusEx w) = Inr T \<Longrightarrow> P w"
    and timeout: "\<And>w s. QueryServiceStatusEx_reply sys (n_QueryServiceStatusEx w) = Inr s \<Longrightarrow> s \<noteq> T \<Longrightarrow>
           unat tmo \<le> elapsed_after_query sys st w \<Longrightarrow> P w"
    and again: "\<And>w s. QueryServiceStatusEx_reply sys (n_QueryServiceStatusEx w) = Inr s \<Longrightarrow> s \<noteq> T \<Longrightarrow>
           elapsed_after_query sys st w < unat tmo \<Longrightarrow>
           P (sleep_for sys (milliseconds 250) (snd (QueryServiceStatusEx sys h w))) \<Longrightarrow> P w"
  shows "P w"
  using assms
proof (induction sys h T tmo st w rule: WaitForServiceStatus_loop.induct)
  case (1 sys h T tmo st w)
  show ?case
  proof (cases "QueryServiceStatusEx_reply sys (n_QueryServiceStatusEx w)")
    case (Inl e)
    then show ?thesis by (rule "1.prems"(1))
  next
    case (Inr s)
    show ?thesis
    proof (cases "s = T")
      case True
      with Inr show ?thesis by (auto intro: "1.prems"(2))
    next
      case False
      show ?thesis
      proof (cases "unat tmo \<le> elapsed_after_query sys st w")
        case True
        with Inr False show ?thesis by (auto intro: "1.prems"(3))
      next
        case nt: False
        have "P (sleep_for sys (milliseconds 250) (snd (QueryServiceStatusEx sys h w)))"
        proof (rule "1.IH" [OF _ _ False refl])
          show "(QueryServiceStatusEx_reply sys (n_QueryServiceStatusEx w), snd (QueryServiceStatusEx sys h w))
                  = QueryServiceStatusEx sys h w"
            by (simp add: prod_eq_iff)
          show "QueryServiceStatusEx_reply sys (n_QueryServiceStatusEx w) = Inr s" by (rule Inr)
          show "\<not> unat tmo \<le> duration_cast_ms (steady_clock_now (snd (QueryServiceStatusEx sys h w)) - st)"
            using nt by (simp add: elapsed_after_query_def steady_clock_now_def)
        qed (fact "1.prems")+
        with Inr False nt show ?thesis
          by (auto intro: "1.prems"(4))
      qed
    qed
  qed
qed


lemma trace_PrintErrorMessage [simp]:
  "trace (PrintErrorMessage f e w) = trace w @ [(clock w, EvPrintErrorMessage f e)]"
  "clock (PrintErrorMessage f e w) = clock w"
  "n_QueryServiceStatusEx (PrintErrorMessage f e w) = n_QueryServiceStatusEx w"
  "n_sleep (PrintErrorMessage f e w) = n_sleep w"
  by (simp_all add: PrintErrorMessage_def)

lemma loop_trace_prefix:
  fixes tmo :: DWORD
  shows "\<exists>evs. trace (snd (WaitForServiceStatus_loop sys h T tmo st w)) = trace w @ evs"
proof (induction w rule: loop_cases_induct [where sys = sys and T = T and tmo = tmo and st = st and h = h])
  case (failed w e)
  then show ?case by (simp add: loop_failed)
next
  case (reached w)
  then show ?case by (simp add: loop_reached)
next
  case (timeout w s)
  then show ?case by (simp add: loop_timeout)
next
  case (again w s)
  then show ?case by (auto simp: loop_again)
qed

lemma loop_trace:
  "trace (snd (WaitForServiceStatus_loop sys h T tmo st w)) =
     trace w @ new_events w (snd (WaitForServiceStatus_loop sys h T tmo st w))"
  using loop_trace_prefix [of sys h T tmo st w] by (auto simp: new_events_def)

lemma loop_events_failed:
  "QueryServiceStatusEx_reply sys (n_QueryServiceStatusEx w) = Inl e \<Longrightarrow>
   loop_events sys h T tmo st w =
     [(clock w, EvQueryServiceStatusEx h (Inl e)),
      (clock w + QueryServiceStatusEx_time sys (n_QueryServiceStatusEx w),
       EvPrintErrorMessage ''QueryServiceStatusEx'' e)]"
  by (simp add: loop_events_def new_events_def loop_failed)

lemma loop_events_reached:
  "QueryServiceStatusEx_reply sys (n_QueryServiceStatusEx w) = Inr T \<Longrightarrow>
   loop_events sys h T tmo st w = [(clock w, EvQueryServiceStatusEx h (Inr T))]"
  by (simp add: loop_events_def new_events_def loop_reached)

lemma loop_events_timeout:
  "QueryServiceStatusEx_reply sys (n_QueryServiceStatusEx w) = Inr s \<Longrightarrow> s \<noteq> T \<Longrightarrow>
   unat tmo \<le> elapsed_after_query sys st w \<Longrightarrow>
   loop_events sys h T tmo st w =
     [(clock w, EvQueryServiceStatusEx h (Inr s)),
      (clock w + QueryServiceStatusEx_time sys (n_QueryServiceStatusEx w), EvTimeoutMessage T)]"
  by (simp add: loop_events_def new_events_def loop_timeout)

lemma loop_events_again:
  assumes "QueryServiceStatusEx_reply sys (n_QueryServiceStatusEx w) = Inr s" "s \<noteq> T"
    "elapsed_after_query sys st w < unat tmo"
  shows "loop_events sys h T tmo st w =
     (clock w, EvQueryServiceStatusEx h (Inr s)) #
     (clock w + QueryServiceStatusEx_time sys (n_QueryServiceStatusEx w), EvSleep (milliseconds 250)) #
     loop_events sys h T tmo st (sleep_for sys (milliseconds 250) (snd (QueryServiceStatusEx sys h w)))"
proof -
  let ?w2 = "sleep_for sys (milliseconds 250) (snd (QueryServiceStatusEx sys h w))"
  have "trace (snd (WaitForServiceStatus_loop sys h T tmo st w)) =
          trace ?w2 @ loop_events sys h T tmo st ?w2"
    unfolding loop_events_def loop_again [OF assms] by (rule loop_trace)
  then show ?thesis
    using assms(1) by (simp add: loop_events_def [of _ _ _ _ _ w] new_events_def)
qed


lemma loop_result_reported:
  fixes tmo :: DWORD
  shows "fst (WaitForServiceStatus_loop sys h T tmo st w) = reported h T (loop_events sys h T tmo st w)"
proof (induction w rule: loop_cases_induct [where sys = sys and T = T and tmo = tmo and st = st and h = h])
  case (failed w e)
  then show ?case by (simp add: loop_failed loop_events_failed reported_def)
next
  case (reached w)
  then show ?case by (simp add: loop_reached loop_events_reached reported_def)
next
  case (timeout w s)
  then show ?case by (simp add: loop_timeout loop_events_timeout reported_def)
next
  case (again w s)
  then show ?case by (simp add: loop_again loop_events_again reported_def)
qed


lemma loop_reached_last:
  fixes tmo :: DWORD
  shows "fst (WaitForServiceStatus_loop sys h T tmo st w) \<Longrightarrow>
     last (trace (snd (WaitForServiceStatus_loop sys h T tmo st w))) =
       (clock (snd (WaitForServiceStatus_loop sys h T tmo st w))
          - QueryServiceStatusEx_time sys (n_QueryServiceStatusEx (snd (WaitForServiceStatus_loop sys h T tmo st w)) - 1),
        EvQueryServiceStatusEx h (Inr T))"
proof (induction w rule: loop_cases_induct [where sys = sys and T = T and tmo = tmo and st = st and h = h])
  case (failed w e)
  then show ?case by (simp add: loop_failed)
next
  case (reached w)
  then show ?case by (simp add: loop_reached)
next
  case (timeout w s)
  then show ?case by (simp add: loop_timeout)
next
  case (again w s)
  then show ?case by (simp add: loop_again)
qed

lemma loop_counts:
  fixes tmo :: DWORD
  shows "sleeps (loop_events sys h T tmo st w) =
           replicate (length (query_replies (loop_events sys h T tmo st w)) - 1) (milliseconds 250)
         \<and> 0 < length (query_replies (loop_events sys h T tmo st w))"
proof (induction w rule: loop_cases_induct [where sys = sys and T = T and tmo = tmo and st = st and h = h])
  case (failed w e)
  then show ?case by (simp add: loop_events_failed)
next
  case (reached w)
  then show ?case by (simp add: loop_events_reached)
next
  case (timeout w s)
  then show ?case by (simp add: loop_events_timeout)
next
  case (again w s)
  then show ?case
    by (cases "length (query_replies (loop_events sys h T tmo st
              (sleep_for sys (milliseconds 250) (snd (QueryServiceStatusEx sys h w)))))")
       (simp_all add: loop_events_again)
qed

lemma loop_fresh:
  fixes tmo :: DWORD
  shows "query_replies (loop_events sys h T tmo st w) =
           map (QueryServiceStatusEx_reply sys)
             [n_QueryServiceStatusEx w ..<
              n_QueryServiceStatusEx w + length (query_replies (loop_events sys h T tmo st w))]"
proof (induction w rule: loop_cases_induct [where sys = sys and T = T and tmo = tmo and st = st and h = h])
  case (failed w e)
  then show ?case by (simp add: loop_events_failed)
next
  case (reached w)
  then show ?case by (simp add: loop_events_reached)
next
  case (timeout w s)
  then show ?case by (simp add: loop_events_timeout)
next
  case (again w s)
  let ?w2 = "sleep_for sys (milliseconds 250) (snd (QueryServiceStatusEx sys h w))"
  let ?k = "length (query_replies (loop_events sys h T tmo st ?w2))"
  let ?n = "n_QueryServiceStatusEx w"
  have ih: "query_replies (loop_events sys h T tmo st ?w2) =
              map (QueryServiceStatusEx_reply sys) [Suc ?n ..< Suc ?n + ?k]"
    using again.IH by simp
  have "[?n ..< ?n + Suc ?k] = ?n # [Suc ?n ..< Suc ?n + ?k]"
    by (simp add: upt_conv_Cons del: upt_Suc)
  then have "map (QueryServiceStatusEx_reply sys) [?n ..< ?n + Suc ?k] =
               Inr s # query_replies (loop_events sys h T tmo st ?w2)"
    using ih again.hyps(1) by (simp del: upt_Suc)
  then show ?case
    using again.hyps by (simp add: loop_events_again del: upt_Suc)
qed

lemma loop_failed_last:
  fixes tmo :: DWORD
  assumes "(t, EvQueryServiceStatusEx h (Inl e)) \<in> set (loop_events sys h T tmo st w)"
  shows "fst (WaitForServiceStatus_loop sys h T tmo st w) = False \<and>
         last (trace (snd (WaitForServiceStatus_loop sys h T tmo st w))) =
           (clock (snd (WaitForServiceStatus_loop sys h T tmo st w)),
            EvPrintErrorMessage ''QueryServiceStatusEx'' e) \<and>
         last (butlast (trace (snd (WaitForServiceStatus_loop sys h T tmo st w)))) =
           (t, EvQueryServiceStatusEx h (Inl e))"
  using assms
proof (induction w rule: loop_cases_induct [where sys = sys and T = T and tmo = tmo and st = st and h = h])
  case (failed w e)
  then show ?case by (auto simp add: loop_failed loop_events_failed butlast_append)
next
  case (reached w)
  then show ?case by (simp add: loop_reached loop_events_reached)
next
  case (timeout w s)
  then show ?case by (simp add: loop_timeout loop_events_timeout)
next
  case (again w s)
  then show ?case
    by (simp add: loop_again loop_events_again)
qed

lemma loop_never_matches:
  fixes tmo :: DWORD
  assumes "\<And>n. \<exists>s. QueryServiceStatusEx_reply sys n = Inr s \<and> s \<noteq> T"
  shows "fst (WaitForServiceStatus_loop sys h T tmo st w) = False \<and>
         last (trace (snd (WaitForServiceStatus_loop sys h T tmo st w))) =
           (clock (snd (WaitForServiceStatus_loop sys h T tmo st w)), EvTimeoutMessage T)"
proof (induction w rule: loop_cases_induct [where sys = sys and T = T and tmo = tmo and st = st and h = h])
  case (failed w e)
  then show ?case using assms [of "n_QueryServiceStatusEx w"] by simp
next
  case (reached w)
  then show ?case using assms [of "n_QueryServiceStatusEx w"] by simp
next
  case (timeout w s)
  then show ?case by (simp add: loop_timeout)
next
  case (again w s)
  then show ?case
    by (simp add: loop_again)
qed

lemma loop_checks:
  fixes tmo :: DWORD
  shows "list_all (check_ok st tmo) (loop_events sys h T tmo st w)"
proof (induction w rule: loop_cases_induct [where sys = sys and T = T and tmo = tmo and st = st and h = h])
  case (failed w e)
  then show ?case by (simp add: loop_events_failed)
next
  case (reached w)
  then show ?case by (simp add: loop_events_reached)
next
  case (timeout w s)
  then show ?case by (simp add: loop_events_timeout elapsed_after_query_def)
next
  case (again w s)
  then show ?case
    by (simp add: loop_events_again elapsed_after_query_def)
qed

lemma loop_clock_bound:
  fixes tmo :: DWORD
  assumes q: "\<And>n. QueryServiceStatusEx_time sys n \<le> q"
    and x: "\<And>n. sleep_for_extra sys n \<le> x"
  shows "clock (snd (WaitForServiceStatus_loop sys h T tmo st w)) \<le>
           max (clock w + q) (st + milliseconds (unat tmo) + milliseconds 250 + x + q)"
proof (induction w rule: loop_cases_induct [where sys = sys and T = T and tmo = tmo and st = st and h = h])
  case (failed w e)
  then show ?case using q [of "n_QueryServiceStatusEx w"] by (simp add: loop_failed)
next
  case (reached w)
  then show ?case using q [of "n_QueryServiceStatusEx w"] by (simp add: loop_reached)
next
  case (timeout w s)
  then show ?case using q [of "n_QueryServiceStatusEx w"] by (simp add: loop_timeout)
next
  case (again w s)
  let ?c1 = "clock w + QueryServiceStatusEx_time sys (n_QueryServiceStatusEx w)"
  from again.hyps(3) have "(?c1 - st) div NS_PER_MS < unat tmo"
    by (simp add: elapsed_after_query_def duration_cast_ms_def)
  then have "?c1 - st < unat tmo * NS_PER_MS"
    by (simp add: div_less_iff_less_mult NS_PER_MS_def)
  then have lt: "?c1 < st + milliseconds (unat tmo)"
    unfolding milliseconds_def by linarith
  have "clock (sleep_for sys (milliseconds 250) (snd (QueryServiceStatusEx sys h w))) + q
          = ?c1 + milliseconds 250 + sleep_for_extra sys (n_sleep w) + q"
    by simp
  also have "\<dots> \<le> st + milliseconds (unat tmo) + milliseconds 250 + x + q"
    using lt x [of "n_sleep w"] by linarith
  finally show ?case
    using again.IH again.hyps by (simp add: loop_again)
qed


lemma Wait_trace:
  "trace (snd (WaitForServiceStatus sys h T tmo w)) =
     trace w @ new_events w (snd (WaitForServiceStatus sys h T tmo w))"
  by (simp add: WaitForServiceStatus_def Let_def loop_trace)

lemma Wait_events:
  "new_events w (snd (WaitForServiceStatus sys h T tmo w)) = loop_events sys h T tmo (clock w) w"
  by (simp add: WaitForServiceStatus_def Let_def loop_events_def steady_clock_now_def)


lemma loop_unfold:
  "WaitForServiceStatus_loop sys h T tmo st w =
     (case QueryServiceStatusEx_reply sys (n_QueryServiceStatusEx w) of
        Inl e \<Rightarrow> (False, PrintErrorMessage ''QueryServiceStatusEx'' e (snd (QueryServiceStatusEx sys h w)))
      | Inr s \<Rightarrow>
          if s = T then (True, snd (QueryServiceStatusEx sys h w))
          else if unat tmo \<le> elapsed_after_query sys st w
               then (False, log_event (EvTimeoutMessage T) (snd (QueryServiceStatusEx sys h w)))
               else WaitForServiceStatus_loop sys h T tmo st
                      (sleep_for sys (milliseconds 250) (snd (QueryServiceStatusEx sys h w))))"
  by (auto simp: loop_failed loop_reached loop_timeout loop_again not_le split: sum.splits)

lemmas eval_defs =
  WaitForServiceStatus_def loop_unfold QueryServiceStatusEx_def sleep_for_def log_event_def
  set_error_def PrintErrorMessage_def steady_clock_now_def elapsed_after_query_def
  duration_cast_ms_def milliseconds_def NS_PER_MS_def world0_def Let_def new_events_def
  SERVICE_STOPPED_def SERVICE_STOP_PENDING_def SERVICE_RUNNING_def reported_by_def reported_def

lemma reported_iff:
  "reported h T evs \<longleftrightarrow> (\<exists>t. (t, EvQueryServiceStatusEx h (Inr T)) \<in> set evs)"
  by (auto simp: reported_def list_ex_iff)

lemma loop_true_not_timed_out:
  fixes tmo :: DWORD
  shows "fst (WaitForServiceStatus_loop sys h T tmo st w) \<Longrightarrow>
           \<not> timed_out (loop_events sys h T tmo st w)"
proof (induction w rule: loop_cases_induct [where sys = sys and T = T and tmo = tmo and st = st and h = h])
  case (failed w e)
  then show ?case by (simp add: loop_failed)
next
  case (reached w)
  then show ?case by (simp add: loop_events_reached timed_out_def)
next
  case (timeout w s)
  then show ?case by (simp add: loop_timeout)
next
  case (again w s)
  then show ?case by (simp add: loop_again loop_events_again timed_out_def)
qed

lemma issued_by_mono: "issued_by D e \<Longrightarrow> D \<le> D' \<Longrightarrow> issued_by D' e"
  by (cases "(D, e)" rule: issued_by.cases) auto

lemma loop_query_times:
  fixes tmo :: DWORD
  assumes x: "\<And>n. sleep_for_extra sys n \<le> x"
  shows "list_all (issued_by (max (clock w) (st + milliseconds (unat tmo) + milliseconds 250 + x)))
           (loop_events sys h T tmo st w)"
proof (induction w rule: loop_cases_induct [where sys = sys and T = T and tmo = tmo and st = st and h = h])
  case (failed w e)
  then show ?case by (simp add: loop_events_failed)
next
  case (reached w)
  then show ?case by (simp add: loop_events_reached)
next
  case (timeout w s)
  then show ?case by (simp add: loop_events_timeout)
next
  case (again w s)
  let ?B = "st + milliseconds (unat tmo) + milliseconds 250 + x"
  let ?c1 = "clock w + QueryServiceStatusEx_time sys (n_QueryServiceStatusEx w)"
  let ?w2 = "sleep_for sys (milliseconds 250) (snd (QueryServiceStatusEx sys h w))"
  from again.hyps(3) have "(?c1 - st) div NS_PER_MS < unat tmo"
    by (simp add: elapsed_after_query_def duration_cast_ms_def)
  then have "?c1 - st < unat tmo * NS_PER_MS"
    by (simp add: div_less_iff_less_mult NS_PER_MS_def)
  then have lt: "?c1 < st + milliseconds (unat tmo)"
    unfolding milliseconds_def by linarith
  have "clock ?w2 = ?c1 + milliseconds 250 + sleep_for_extra sys (n_sleep w)"
    by simp
  also have "\<dots> \<le> ?B"
    using lt x [of "n_sleep w"] by linarith
  finally have le: "max (clock ?w2) ?B \<le> max (clock w) ?B"
    by simp
  have "list_all (issued_by (max (clock w) ?B)) (loop_events sys h T tmo st ?w2)"
    using again.IH le by (auto simp: list_all_iff intro: issued_by_mono)
  then show ?case
    using again.hyps by (simp add: loop_events_again)
qed

lemma reported_by_iff:
  "reported_by D h T evs \<longleftrightarrow> (\<exists>t\<le>D. (t, EvQueryServiceStatusEx h (Inr T)) \<in> set evs)"
  by (auto simp: reported_by_def list_ex_iff)

lemma reported_issued_by:
  "list_all (issued_by D) evs \<Longrightarrow> reported_by D h T evs = reported h T evs"
  unfolding reported_by_iff reported_iff list_all_iff by fastforce

section \<open>The two phases and the sequence of main\<close>

lemma OpenSCManager_fields [simp]:
  "fst (OpenSCManager sys a w) = handle_of (OpenSCManager_reply sys (n_OpenSCManager w))"
  "trace (snd (OpenSCManager sys a w)) =
     trace w @ [(clock w, EvOpenSCManager a (OpenSCManager_reply sys (n_OpenSCManager w)))]"
  "clock (snd (OpenSCManager sys a w)) = clock w"
  "n_OpenService (snd (OpenSCManager sys a w)) = n_OpenService w"
  "n_ControlService (snd (OpenSCManager sys a w)) = n_ControlService w"
  "n_StartService (snd (OpenSCManager sys a w)) = n_StartService w"
  "n_QueryServiceStatusEx (snd (OpenSCManager sys a w)) = n_QueryServiceStatusEx w"
  "n_sleep (snd (OpenSCManager sys a w)) = n_sleep w"
  by (simp_all add: OpenSCManager_def Let_def set_error_def log_event_def split: sum.splits)

lemma OpenSCManager_error [simp]:
  "OpenSCManager_reply sys (n_OpenSCManager w) = Inl e \<Longrightarrow>
     GetLastError (snd (OpenSCManager sys a w)) = e"
  by (simp add: OpenSCManager_def Let_def set_error_def log_event_def GetLastError_def)

lemma OpenService_fields [simp]:
  "fst (OpenService sys scm name a w) = handle_of (OpenService_reply sys (n_OpenService w))"
  "trace (snd (OpenService sys scm name a w)) =
     trace w @ [(clock w, EvOpenService scm name a (OpenService_reply sys (n_OpenService w)))]"
  "clock (snd (OpenService sys scm name a w)) = clock w"
  "n_ControlService (snd (OpenService sys scm name a w)) = n_ControlService w"
  "n_StartService (snd (OpenService sys scm name a w)) = n_StartService w"
  "n_QueryServiceStatusEx (snd (OpenService sys scm name a w)) = n_QueryServiceStatusEx w"
  "n_sleep (snd (OpenService sys scm name a w)) = n_sleep w"
  by (simp_all add: OpenService_def Let_def set_error_def log_event_def split: sum.splits)

lemma OpenService_error [simp]:
  "OpenService_reply sys (n_OpenService w) = Inl e \<Longrightarrow>
     GetLastError (snd (OpenService sys scm name a w)) = e"
  by (simp add: OpenService_def Let_def set_error_def log_event_def GetLastError_def)

lemma ControlService_fields [simp]:
  "fst (ControlService sys h c w) = succeeded (ControlService_reply sys (n_ControlService w))"
  "trace (snd (ControlService sys h c w)) =
     trace w @ [(clock w, EvControlService h c (ControlService_reply sys (n_ControlService w)))]"
  "clock (snd (ControlService sys h c w)) = clock w"
  "n_QueryServiceStatusEx (snd (ControlService sys h c w)) = n_QueryServiceStatusEx w"
  "n_sleep (snd (ControlService sys h c w)) = n_sleep w"
  by (simp_all add: ControlService_def Let_def set_error_def log_event_def split: sum.splits)

lemma ControlService_error [simp]:
  "ControlService_reply sys (n_ControlService w) = Inl e \<Longrightarrow>
     GetLastError (snd (ControlService sys h c w)) = e"
  by (simp add: ControlService_def Let_def set_error_def log_event_def GetLastError_def)

lemma StartService_fields [simp]:
  "fst (StartService sys h w) = succeeded (StartService_reply sys (n_StartService w))"
  "trace (snd (StartService sys h w)) =
     trace w @ [(clock w, EvStartService h (StartService_reply sys (n_StartService w)))]"
  "clock (snd (StartService sys h w)) = clock w"
  "n_QueryServiceStatusEx (snd (StartService sys h w)) = n_QueryServiceStatusEx w"
  "n_sleep (snd (StartService sys h w)) = n_sleep w"
  by (simp_all add: StartService_def Let_def set_error_def log_event_def split: sum.splits)

lemma StartService_error [simp]:
  "StartService_reply sys (n_StartService w) = Inl e \<Longrightarrow>
     GetLastError (snd (StartService sys h w)) = e"
  by (simp add: StartService_def Let_def set_error_def log_event_def GetLastError_def)

lemma output_fields [simp]:
  "trace (wcout s w) = trace w @ [(clock w, EvWcout s)]"
  "trace (wcerr s w) = trace w @ [(clock w, EvWcerr s)]"
  "trace (CloseServiceHandle h w) = trace w @ [(clock w, EvCloseServiceHandle h)]"
  "clock (wcout s w) = clock w"
  "clock (wcerr s w) = clock w"
  "clock (CloseServiceHandle h w) = clock w"
  "n_QueryServiceStatusEx (wcout s w) = n_QueryServiceStatusEx w"
  "n_sleep (wcout s w) = n_sleep w"
  by (simp_all add: wcout_def wcerr_def CloseServiceHandle_def)

lemma stop_requested_fields [simp]:
  "trace (stop_requested sys name scm svc w) =
     trace w @
     [(clock w, EvOpenSCManager SC_MANAGER_CONNECT (OpenSCManager_reply sys (n_OpenSCManager w))),
      (clock w, EvOpenService scm name (SERVICE_STOP OR SERVICE_QUERY_STATUS)
                  (OpenService_reply sys (n_OpenService w))),
      (clock w, EvControlService svc SERVICE_CONTROL_STOP
                  (ControlService_reply sys (n_ControlService w))),
      (clock w, EvWcout ''Stop request sent. Waiting for service to terminate...'')]"
  "clock (stop_requested sys name scm svc w) = clock w"
  "n_QueryServiceStatusEx (stop_requested sys name scm svc w) = n_QueryServiceStatusEx w"
  "n_sleep (stop_requested sys name scm svc w) = n_sleep w"
  by (simp_all add: stop_requested_def)

lemma start_requested_fields [simp]:
  "trace (start_requested sys name scm svc w) =
     trace w @
     [(clock w, EvOpenSCManager SC_MANAGER_CONNECT (OpenSCManager_reply sys (n_OpenSCManager w))),
      (clock w, EvOpenService scm name (SERVICE_START OR SERVICE_QUERY_STATUS)
                  (OpenService_reply sys (n_OpenService w))),
      (clock w, EvStartService svc (StartService_reply sys (n_StartService w))),
      (clock w, EvWcout ''Start request sent. Waiting for service to run...'')]"
  "clock (start_requested sys name scm svc w) = clock w"
  "n_QueryServiceStatusEx (start_requested sys name scm svc w) = n_QueryServiceStatusEx w"
  "n_sleep (start_requested sys name scm svc w) = n_sleep w"
  by (simp_all add: start_requested_def)

lemma Stop_no_scm:
  assumes "OpenSCManager_reply sys (n_OpenSCManager w) = Inl e"
  shows "StopServiceByName sys name w =
           (False, PrintErrorMessage ''OpenSCManager'' e (snd (OpenSCManager sys SC_MANAGER_CONNECT w)))"
  using assms OpenSCManager_error [OF assms, of SC_MANAGER_CONNECT]
  by (simp add: StopServiceByName_def ScHandlePtr_scope_def ServiceHandleDeleter_def
      split_beta handle_of_def)

lemma Stop_no_service:
  assumes "OpenSCManager_reply sys (n_OpenSCManager w) = Inr scm"
    and "OpenService_reply sys (n_OpenService w) = Inl e"
  shows "StopServiceByName sys name w =
           (False, CloseServiceHandle scm (PrintErrorMessage ''OpenService'' e
              (snd (OpenService sys scm name (SERVICE_STOP OR SERVICE_QUERY_STATUS)
                 (snd (OpenSCManager sys SC_MANAGER_CONNECT w))))))"
  using assms
  by (simp add: StopServiceByName_def ScHandlePtr_scope_def ServiceHandleDeleter_def
      split_beta handle_of_def)

lemma Stop_rejected:
  assumes "OpenSCManager_reply sys (n_OpenSCManager w) = Inr scm"
    and "OpenService_reply sys (n_OpenService w) = Inr svc"
    and "ControlService_reply sys (n_ControlService w) = Inl e"
    and "e \<noteq> ERROR_SERVICE_NOT_ACTIVE"
  shows "StopServiceByName sys name w =
           (False, CloseServiceHandle scm (CloseServiceHandle svc
              (PrintErrorMessage ''ControlService'' e
                (snd (ControlService sys svc SERVICE_CONTROL_STOP
                  (snd (OpenService sys scm name (SERVICE_STOP OR SERVICE_QUERY_STATUS)
                    (snd (OpenSCManager sys SC_MANAGER_CONNECT w)))))))))"
  using assms
  by (simp add: StopServiceByName_def ScHandlePtr_scope_def ServiceHandleDeleter_def
      split_beta handle_of_def succeeded_def Let_def)

lemma Stop_waits:
  assumes "OpenSCManager_reply sys (n_OpenSCManager w) = Inr scm"
    and "OpenService_reply sys (n_OpenService w) = Inr svc"
    and "ControlService_reply sys (n_ControlService w) = Inr ()
         \<or> ControlService_reply sys (n_ControlService w) = Inl ERROR_SERVICE_NOT_ACTIVE"
  shows "StopServiceByName sys name w =
           (fst (WaitForServiceStatus sys svc SERVICE_STOPPED default_timeoutMillis
                   (stop_requested sys name scm svc w)),
            CloseServiceHandle scm (CloseServiceHandle svc
              (snd (WaitForServiceStatus sys svc SERVICE_STOPPED default_timeoutMillis
                   (stop_requested sys name scm svc w)))))"
  using assms
  by (auto simp add: StopServiceByName_def ScHandlePtr_scope_def ServiceHandleDeleter_def
      split_beta handle_of_def succeeded_def Let_def stop_requested_def)

lemma Start_no_scm:
  assumes "OpenSCManager_reply sys (n_OpenSCManager w) = Inl e"
  shows "StartServiceByName sys name w =
           (False, PrintErrorMessage ''OpenSCManager'' e (snd (OpenSCManager sys SC_MANAGER_CONNECT w)))"
  using assms OpenSCManager_error [OF assms, of SC_MANAGER_CONNECT]
  by (simp add: StartServiceByName_def ScHandlePtr_scope_def ServiceHandleDeleter_def
      split_beta handle_of_def)

lemma Start_no_service:
  assumes "OpenSCManager_reply sys (n_OpenSCManager w) = Inr scm"
    and "OpenService_reply sys (n_OpenService w) = Inl e"
  shows "StartServiceByName sys name w =
           (False, CloseServiceHandle scm (PrintErrorMessage ''OpenService'' e
              (snd (OpenService sys scm name (SERVICE_START OR SERVICE_QUERY_STATUS)
                 (snd (OpenSCManager sys SC_MANAGER_CONNECT w))))))"
  using assms
  by (simp add: StartServiceByName_def ScHandlePtr_scope_def ServiceHandleDeleter_def
      split_beta handle_of_def)

lemma Start_rejected:
  assumes "OpenSCManager_reply sys (n_OpenSCManager w) = Inr scm"
    and "OpenService_reply sys (n_OpenService w) = Inr svc"
    and "StartService_reply sys (n_StartService w) = Inl e"
    and "e \<noteq> ERROR_SERVICE_ALREADY_RUNNING"
  shows "StartServiceByName sys name w =
           (False, CloseServiceHandle scm (CloseServiceHandle svc
              (PrintErrorMessage ''StartService'' e
                (snd (StartService sys svc
                  (snd (OpenService sys scm name (SERVICE_START OR SERVICE_QUERY_STATUS)
                    (snd (OpenSCManager sys SC_MANAGER_CONNECT w)))))))))"
  using assms
  by (simp add: StartServiceByName_def ScHandlePtr_scope_def ServiceHandleDeleter_def
      split_beta handle_of_def succeeded_def Let_def)

lemma Start_already_running:
  assumes "OpenSCManager_reply sys (n_OpenSCManager w) = Inr scm"
    and "OpenService_reply sys (n_OpenService w) = Inr svc"
    and "StartService_reply sys (n_StartService w) = Inl ERROR_SERVICE_ALREADY_RUNNING"
  shows "StartServiceByName sys name w =
           (True, CloseServiceHandle scm (CloseServiceHandle svc
              (wcout ''Service is already running.''
                (snd (StartService sys svc
                  (snd (OpenService sys scm name (SERVICE_START OR SERVICE_QUERY_STATUS)
                    (snd (OpenSCManager sys SC_MANAGER_CONNECT w)))))))))"
  using assms
  by (simp add: StartServiceByName_def ScHandlePtr_scope_def ServiceHandleDeleter_def
      split_beta handle_of_def succeeded_def Let_def)

lemma Start_waits:
  assumes "OpenSCManager_reply sys (n_OpenSCManager w) = Inr scm"
    and "OpenService_reply sys (n_OpenService w) = Inr svc"
    and "StartService_reply sys (n_StartService w) = Inr ()"
  shows "StartServiceByName sys name w =
           (fst (WaitForServiceStatus sys svc SERVICE_RUNNING default_timeoutMillis
                   (start_requested sys name scm svc w)),
            CloseServiceHandle scm (CloseServiceHandle svc
              (snd (WaitForServiceStatus sys svc SERVICE_RUNNING default_timeoutMillis
                   (start_requested sys name scm svc w)))))"
  using assms
  by (auto simp add: StartServiceByName_def ScHandlePtr_scope_def ServiceHandleDeleter_def
      split_beta handle_of_def succeeded_def Let_def start_requested_def)

lemma loop_wait_events:
  fixes tmo :: DWORD
  shows "list_all (wait_event h) (loop_events sys h T tmo st w)"
proof (induction w rule: loop_cases_induct [where sys = sys and T = T and tmo = tmo and st = st and h = h])
  case (failed w e)
  then show ?case by (simp add: loop_events_failed)
next
  case (reached w)
  then show ?case by (simp add: loop_events_reached)
next
  case (timeout w s)
  then show ?case by (simp add: loop_events_timeout)
next
  case (again w s)
  then show ?case by (simp add: loop_events_again)
qed

lemma Wait_wait_events:
  "list_all (wait_event h) (new_events w (snd (WaitForServiceStatus sys h T tmo w)))"
  unfolding Wait_events by (rule loop_wait_events)

lemma run_handles_append:
  "run_handles (xs @ ys) H =
     (case run_handles xs H of None \<Rightarrow> None | Some H' \<Rightarrow> run_handles ys H')"
  by (induction xs arbitrary: H) (auto split: option.splits)

lemma run_handles_wait_events:
  "list_all (wait_event h) evs \<Longrightarrow> h \<in> set H \<Longrightarrow> run_handles evs H = Some H"
proof (induction evs)
  case Nil
  then show ?case by simp
next
  case (Cons a evs)
  obtain t e where a: "a = (t, e)" by (cases a)
  from Cons.prems(1) have "wait_event h (t, e)" by (simp add: a)
  then have "apply_event e H = Some H"
    using Cons.prems(2) by (cases e) auto
  then show ?case
    using Cons by (simp add: a)
qed

lemma system_calls_append: "system_calls (xs @ ys) = system_calls xs @ system_calls ys"
  by (induction xs rule: system_calls.induct) auto



lemma system_calls_wait_events:
  "list_all (wait_event h) evs \<Longrightarrow> system_calls evs = []"
proof (induction evs)
  case Nil
  then show ?case by simp
next
  case (Cons a evs)
  obtain t e where a: "a = (t, e)" by (cases a)
  from Cons show ?case
    by (cases e) (simp_all add: a)
qed


lemma new_events_append: "trace w' = trace w @ evs \<Longrightarrow> new_events w w' = evs"
  by (simp add: new_events_def)

lemma Stop_waits_trace:
  assumes "OpenSCManager_reply sys (n_OpenSCManager w) = Inr scm"
    and "OpenService_reply sys (n_OpenService w) = Inr svc"
    and "ControlService_reply sys (n_ControlService w) = Inr ()
         \<or> ControlService_reply sys (n_ControlService w) = Inl ERROR_SERVICE_NOT_ACTIVE"
  shows "trace (snd (StopServiceByName sys name w)) =
     trace w @
     [(clock w, EvOpenSCManager SC_MANAGER_CONNECT (Inr scm)),
      (clock w, EvOpenService scm name (SERVICE_STOP OR SERVICE_QUERY_STATUS) (Inr svc)),
      (clock w, EvControlService svc SERVICE_CONTROL_STOP
                  (ControlService_reply sys (n_ControlService w))),
      (clock w, EvWcout ''Stop request sent. Waiting for service to terminate...'')] @
     new_events (stop_requested sys name scm svc w)
       (snd (WaitForServiceStatus sys svc SERVICE_STOPPED default_timeoutMillis
              (stop_requested sys name scm svc w))) @
     [(clock (snd (StopServiceByName sys name w)), EvCloseServiceHandle svc),
      (clock (snd (StopServiceByName sys name w)), EvCloseServiceHandle scm)]"
  unfolding Stop_waits [OF assms]
  using assms(1,2)
  by (simp add: Wait_trace [of sys svc SERVICE_STOPPED default_timeoutMillis "stop_requested sys name scm svc w"])

lemma Start_waits_trace:
  assumes "OpenSCManager_reply sys (n_OpenSCManager w) = Inr scm"
    and "OpenService_reply sys (n_OpenService w) = Inr svc"
    and "StartService_reply sys (n_StartService w) = Inr ()"
  shows "trace (snd (StartServiceByName sys name w)) =
     trace w @
     [(clock w, EvOpenSCManager SC_MANAGER_CONNECT (Inr scm)),
      (clock w, EvOpenService scm name (SERVICE_START OR SERVICE_QUERY_STATUS) (Inr svc)),
      (clock w, EvStartService svc (Inr ())),
      (clock w, EvWcout ''Start request sent. Waiting for service to run...'')] @
     new_events (start_requested sys name scm svc w)
       (snd (WaitForServiceStatus sys svc SERVICE_RUNNING default_timeoutMillis
              (start_requested sys name scm svc w))) @
     [(clock (snd (StartServiceByName sys name w)), EvCloseServiceHandle svc),
      (clock (snd (StartServiceByName sys name w)), EvCloseServiceHandle scm)]"
  unfolding Start_waits [OF assms]
  using assms
  by (simp add: Wait_trace [of sys svc SERVICE_RUNNING default_timeoutMillis "start_requested sys name scm svc w"])

lemma Stop_summary:
  "\<exists>evs. trace (snd (StopServiceByName sys name w)) = trace w @ evs
         \<and> run_handles evs H = Some H \<and> system_calls evs = []"
proof (cases "OpenSCManager_reply sys (n_OpenSCManager w)")
  case (Inl e)
  then show ?thesis by (simp add: Stop_no_scm)
next
  case scm: (Inr scm)
  show ?thesis
  proof (cases "OpenService_reply sys (n_OpenService w)")
    case (Inl e)
    with scm show ?thesis by (simp add: Stop_no_service)
  next
    case svc: (Inr svc)
    let ?W = "new_events (stop_requested sys name scm svc w)
       (snd (WaitForServiceStatus sys svc SERVICE_STOPPED default_timeoutMillis
              (stop_requested sys name scm svc w)))"
    have W: "run_handles ?W (svc # scm # H) = Some (svc # scm # H)" "system_calls ?W = []"
      using Wait_wait_events [of svc "stop_requested sys name scm svc w" sys SERVICE_STOPPED default_timeoutMillis]
      by (simp_all add: run_handles_wait_events system_calls_wait_events)
    show ?thesis
    proof (cases "ControlService_reply sys (n_ControlService w) = Inr ()
         \<or> ControlService_reply sys (n_ControlService w) = Inl ERROR_SERVICE_NOT_ACTIVE")
      case True
      show ?thesis
        unfolding Stop_waits_trace [OF scm svc True]
        using W by (simp add: run_handles_append system_calls_append)
    next
      case False
      then obtain e where e: "ControlService_reply sys (n_ControlService w) = Inl e"
          "e \<noteq> ERROR_SERVICE_NOT_ACTIVE"
        by (cases "ControlService_reply sys (n_ControlService w)") auto
      show ?thesis
        using scm svc e by (simp add: Stop_rejected)
    qed
  qed
qed

lemma Start_summary:
  "\<exists>evs. trace (snd (StartServiceByName sys name w)) = trace w @ evs
         \<and> run_handles evs H = Some H \<and> system_calls evs = []"
proof (cases "OpenSCManager_reply sys (n_OpenSCManager w)")
  case (Inl e)
  then show ?thesis by (simp add: Start_no_scm)
next
  case scm: (Inr scm)
  show ?thesis
  proof (cases "OpenService_reply sys (n_OpenService w)")
    case (Inl e)
    with scm show ?thesis by (simp add: Start_no_service)
  next
    case svc: (Inr svc)
    let ?W = "new_events (start_requested sys name scm svc w)
       (snd (WaitForServiceStatus sys svc SERVICE_RUNNING default_timeoutMillis
              (start_requested sys name scm svc w)))"
    have W: "run_handles ?W (svc # scm # H) = Some (svc # scm # H)" "system_calls ?W = []"
      using Wait_wait_events [of svc "start_requested sys name scm svc w" sys SERVICE_RUNNING default_timeoutMillis]
      by (simp_all add: run_handles_wait_events system_calls_wait_events)
    show ?thesis
    proof (cases "StartService_reply sys (n_StartService w)")
      case (Inr u)
      then have ok: "StartService_reply sys (n_StartService w) = Inr ()" by simp
      show ?thesis
        unfolding Start_waits_trace [OF scm svc ok]
        using W by (simp add: run_handles_append system_calls_append)
    next
      case (Inl e)
      show ?thesis
      proof (cases "e = ERROR_SERVICE_ALREADY_RUNNING")
        case True
        with scm svc Inl show ?thesis by (simp add: Start_already_running)
      next
        case False
        with scm svc Inl show ?thesis by (simp add: Start_rejected)
      qed
    qed
  qed
qed

lemma Stop_trace:
  "trace (snd (StopServiceByName sys name w)) =
     trace w @ new_events w (snd (StopServiceByName sys name w))"
  using Stop_summary [of sys name w "[]"] by (auto simp: new_events_def)

lemma Start_trace:
  "trace (snd (StartServiceByName sys name w)) =
     trace w @ new_events w (snd (StartServiceByName sys name w))"
  using Start_summary [of sys name w "[]"] by (auto simp: new_events_def)

lemma Stop_handles:
  "run_handles (new_events w (snd (StopServiceByName sys name w))) H = Some H"
  using Stop_summary [of sys name w H] by (auto simp: new_events_def)

lemma Start_handles:
  "run_handles (new_events w (snd (StartServiceByName sys name w))) H = Some H"
  using Start_summary [of sys name w H] by (auto simp: new_events_def)

lemma Stop_system_calls:
  "system_calls (new_events w (snd (StopServiceByName sys name w))) = []"
  using Stop_summary [of sys name w "[]"] by (auto simp: new_events_def)

lemma Start_system_calls:
  "system_calls (new_events w (snd (StartServiceByName sys name w))) = []"
  using Start_summary [of sys name w "[]"] by (auto simp: new_events_def)

lemma system_fields [simp]:
  "fst (system sys cmd w) = system_reply sys"
  "trace (snd (system sys cmd w)) = trace w @ [(clock w, EvSystem cmd (system_reply sys))]"
  "clock (snd (system sys cmd w)) = clock w"
  by (simp_all add: system_def log_event_def)

lemma main_result:
  "main sys w =
     (0, wcout (CHR 0x0A # ''Done.'')
       (if fst (main_stop sys w) then
          if fst (main_start sys w) then
            if system_reply sys = 0
            then wcout ''Time resync command sent successfully.'' (resynced sys w)
            else wcerr ''Failed to execute time resync command.'' (resynced sys w)
          else wcerr ''Failed to start the service.'' (snd (main_start sys w))
        else wcerr ''Failed to stop the service. Aborting.'' (snd (main_stop sys w))))"
  by (simp add: main_def main_stop_def main_start_def resynced_def Let_def split_beta)

lemma main_stop_trace:
  "trace (snd (main_stop sys w)) =
     trace w @ (clock w, EvWcout (''--- Attempting to stop the '' @ [CHR 0x27] @ serviceName_w32time
                 @ [CHR 0x27] @ '' service... ---'')) # new_events
       (wcout (''--- Attempting to stop the '' @ [CHR 0x27] @ serviceName_w32time
                 @ [CHR 0x27] @ '' service... ---'') w) (snd (main_stop sys w))"
  unfolding main_stop_def
  by (subst Stop_trace) simp

lemma main_start_trace:
  "trace (snd (main_start sys w)) =
     trace (snd (main_stop sys w)) @
     (clock (snd (main_stop sys w)), EvWcout (''Service successfully stopped.'' @ [CHR 0x0A])) #
     (clock (snd (main_stop sys w)),
      EvWcout (''--- Attempting to start the '' @ [CHR 0x27] @ serviceName_w32time
                 @ [CHR 0x27] @ '' service... ---'')) #
     new_events
       (wcout (''--- Attempting to start the '' @ [CHR 0x27] @ serviceName_w32time
                 @ [CHR 0x27] @ '' service... ---'')
          (wcout (''Service successfully stopped.'' @ [CHR 0x0A]) (snd (main_stop sys w))))
       (snd (main_start sys w))"
  unfolding main_start_def
  by (subst Start_trace) simp

lemma main_stop_events:
  "new_events w (snd (main_stop sys w)) =
     (clock w, EvWcout (''--- Attempting to stop the '' @ [CHR 0x27] @ serviceName_w32time
                 @ [CHR 0x27] @ '' service... ---'')) # new_events
       (wcout (''--- Attempting to stop the '' @ [CHR 0x27] @ serviceName_w32time
                 @ [CHR 0x27] @ '' service... ---'') w) (snd (main_stop sys w))"
  by (rule new_events_append) (rule main_stop_trace)

lemma main_stop_calls:
  "system_calls (new_events w (snd (main_stop sys w))) = []"
    "run_handles (new_events w (snd (main_stop sys w))) H = Some H"
  unfolding main_stop_events
  by (simp_all add: Stop_system_calls Stop_handles main_stop_def)

lemma main_start_calls:
  "system_calls (new_events w (snd (main_start sys w))) = []"
    "run_handles (new_events w (snd (main_start sys w))) H = Some H"
proof -
  let ?b = "(clock w, EvWcout (''--- Attempting to stop the '' @ [CHR 0x27] @ serviceName_w32time
                 @ [CHR 0x27] @ '' service... ---''))"
  let ?w1 = "wcout (''--- Attempting to stop the '' @ [CHR 0x27] @ serviceName_w32time
                 @ [CHR 0x27] @ '' service... ---'') w"
  let ?w4 = "wcout (''--- Attempting to start the '' @ [CHR 0x27] @ serviceName_w32time
                 @ [CHR 0x27] @ '' service... ---'')
          (wcout (''Service successfully stopped.'' @ [CHR 0x0A]) (snd (main_stop sys w)))"
  have "new_events w (snd (main_start sys w)) =
          ?b # new_events ?w1 (snd (main_stop sys w)) @
          (clock (snd (main_stop sys w)), EvWcout (''Service successfully stopped.'' @ [CHR 0x0A])) #
          (clock (snd (main_stop sys w)),
           EvWcout (''--- Attempting to start the '' @ [CHR 0x27] @ serviceName_w32time
                 @ [CHR 0x27] @ '' service... ---'')) #
          new_events ?w4 (snd (main_start sys w))"
    by (rule new_events_append) (simp add: main_start_trace main_stop_trace)
  then show "system_calls (new_events w (snd (main_start sys w))) = []"
    "run_handles (new_events w (snd (main_start sys w))) H = Some H"
    by (simp_all add: system_calls_append run_handles_append
        Stop_system_calls Stop_handles Start_system_calls Start_handles main_stop_def main_start_def)
qed

lemma main_stop_extends:
  "trace (snd (main_stop sys w)) = trace w @ new_events w (snd (main_stop sys w))"
  unfolding main_stop_events by (rule main_stop_trace)

lemma main_start_extends:
  "\<exists>evs. trace (snd (main_start sys w)) = trace w @ evs"
  by (subst main_start_trace, subst main_stop_trace) simp

lemma main_start_extends':
  "trace (snd (main_start sys w)) = trace w @ new_events w (snd (main_start sys w))"
  using main_start_extends [of sys w] by (auto simp: new_events_def)

lemma resynced_fields:
  "trace (resynced sys w) =
     trace (snd (main_start sys w)) @
     [(clock (snd (main_start sys w)), EvWcout (''Service successfully started.'' @ [CHR 0x0A])),
      (clock (snd (main_start sys w)), EvWcout ''--- Resyncing system time... ---''),
      (clock (snd (main_start sys w)), EvSystem resync_command (system_reply sys))]"
  "clock (resynced sys w) = clock (snd (main_start sys w))"
  by (simp_all add: resynced_def)

lemma main_trace_stop_failed:
  "\<not> fst (main_stop sys w) \<Longrightarrow>
   trace (snd (main sys w)) =
     trace (snd (main_stop sys w)) @
     [(clock (snd (main_stop sys w)), EvWcerr ''Failed to stop the service. Aborting.''),
      (clock (snd (main_stop sys w)), EvWcout (CHR 0x0A # ''Done.''))]"
  by (simp add: main_result)

lemma main_trace_start_failed:
  "fst (main_stop sys w) \<Longrightarrow> \<not> fst (main_start sys w) \<Longrightarrow>
   trace (snd (main sys w)) =
     trace (snd (main_start sys w)) @
     [(clock (snd (main_start sys w)), EvWcerr ''Failed to start the service.''),
      (clock (snd (main_start sys w)), EvWcout (CHR 0x0A # ''Done.''))]"
  by (simp add: main_result)

lemma main_trace_started:
  "fst (main_stop sys w) \<Longrightarrow> fst (main_start sys w) \<Longrightarrow>
   trace (snd (main sys w)) =
     trace (snd (main_start sys w)) @
     [(clock (snd (main_start sys w)), EvWcout (''Service successfully started.'' @ [CHR 0x0A])),
      (clock (snd (main_start sys w)), EvWcout ''--- Resyncing system time... ---''),
      (clock (snd (main_start sys w)), EvSystem resync_command (system_reply sys)),
      (clock (snd (main_start sys w)),
       if system_reply sys = 0 then EvWcout ''Time resync command sent successfully.''
       else EvWcerr ''Failed to execute time resync command.''),
      (clock (snd (main_start sys w)), EvWcout (CHR 0x0A # ''Done.''))]"
  by (simp add: main_result resynced_fields)

lemmas eval_program =
  main_def main_stop_def main_start_def StopServiceByName_def StartServiceByName_def
  ScHandlePtr_scope_def ServiceHandleDeleter_def OpenSCManager_def OpenService_def
  ControlService_def StartService_def CloseServiceHandle_def wcout_def wcerr_def system_def
  handle_of_def succeeded_def GetLastError_def default_timeoutMillis_def
  ERROR_SERVICE_NOT_ACTIVE_def ERROR_SERVICE_ALREADY_RUNNING_def ERROR_ACCESS_DENIED_def
  SERVICE_START_PENDING_def serviceName_w32time_def resync_command_def

lemmas eval_systems =
  sys_healthy_def sys_scm_down_def sys_not_active_def sys_already_running_def
  sys_stop_denied_def sys_start_denied_def sys_resync_fails_def

lemma healthy_run:
  "fst (main_stop sys_healthy world0)" "fst (main_start sys_healthy world0)"
  by (simp_all add: eval_program eval_defs eval_systems split_beta)

lemma scm_down_run:
  "\<not> fst (main_stop sys_scm_down world0)"
  by (simp_all add: eval_program eval_defs eval_systems split_beta)

lemma start_denied_run:
  "fst (main_stop sys_start_denied world0)" "\<not> fst (main_start sys_start_denied world0)"
  by (simp_all add: eval_program eval_defs eval_systems split_beta)

lemma resync_fails_run:
  "fst (main_stop sys_resync_fails world0)" "fst (main_start sys_resync_fails world0)"
  "system_reply sys_resync_fails \<noteq> 0"
  by (simp_all add: eval_program eval_defs eval_systems split_beta)

section \<open>Claims about WaitForServiceStatus\<close>

text \<open>
  Claim C1, as the specification states it: \<open>WaitForServiceStatus\<close> returns true if and
  only if some status query issued at or before the moment the timeout elapses reports the
  target state. The code tests the timeout only after a query that did not match, so the
  query that matches can be issued after the timeout has elapsed. Under \<open>sys_late\<close>
  with a timeout of 100 ms the first query, at 0 ms, reports \<open>SERVICE_STOP_PENDING\<close>,
  the elapsed time 0 is below 100, the loop sleeps 250 ms, and the second query, issued at
  250 ms, reports \<open>SERVICE_STOPPED\<close>: the call returns true although no query issued
  within the first 100 ms reported the target.
\<close>

theorem true_after_deadline_counterexample:
  "fst (WaitForServiceStatus sys_late 2 SERVICE_STOPPED 100 world0) \<noteq>
     reported_by (clock world0 + milliseconds (unat (100 :: DWORD))) 2 SERVICE_STOPPED
       (new_events world0 (snd (WaitForServiceStatus sys_late 2 SERVICE_STOPPED 100 world0)))"
  by (simp add: eval_defs sys_late_def)

text \<open>
  Claim C1, amended: \<open>WaitForServiceStatus\<close> returns true if and only if some status
  query that it issues reports the target state, whenever that query is issued; when it
  returns true, the matching query is the last event of the call (no sleep and no further
  query follows it). When no sleep lasts more than \<open>x\<close> longer than asked, every query is
  issued at most \<open>timeoutMillis + 250 ms + x\<close> after the start, so the result is true
  if and only if a query issued by then reports the target.
\<close>

theorem WaitForServiceStatus_true_iff_reported:
  "fst (WaitForServiceStatus sys h T tmo w) =
     reported h T (new_events w (snd (WaitForServiceStatus sys h T tmo w)))
   \<and> (fst (WaitForServiceStatus sys h T tmo w) \<longrightarrow>
        snd (last (trace (snd (WaitForServiceStatus sys h T tmo w)))) =
          EvQueryServiceStatusEx h (Inr T))
   \<and> ((\<forall>n. sleep_for_extra sys n \<le> x) \<longrightarrow>
        fst (WaitForServiceStatus sys h T tmo w) =
          reported_by (clock w + milliseconds (unat tmo) + milliseconds 250 + x) h T
            (new_events w (snd (WaitForServiceStatus sys h T tmo w))))"
proof -
  have r: "fst (WaitForServiceStatus sys h T tmo w) =
          reported h T (new_events w (snd (WaitForServiceStatus sys h T tmo w)))"
    unfolding Wait_events
    by (simp add: WaitForServiceStatus_def Let_def steady_clock_now_def loop_result_reported)
  have l: "snd (last (trace (snd (WaitForServiceStatus sys h T tmo w)))) =
          EvQueryServiceStatusEx h (Inr T)" if "fst (WaitForServiceStatus sys h T tmo w)"
    using that loop_reached_last [of sys h T tmo "clock w" w]
    by (simp add: WaitForServiceStatus_def Let_def steady_clock_now_def)
  have d: "fst (WaitForServiceStatus sys h T tmo w) =
          reported_by (clock w + milliseconds (unat tmo) + milliseconds 250 + x) h T
            (new_events w (snd (WaitForServiceStatus sys h T tmo w)))"
    if "\<forall>n. sleep_for_extra sys n \<le> x"
  proof -
    have "list_all (issued_by (max (clock w) (clock w + milliseconds (unat tmo) + milliseconds 250 + x)))
            (loop_events sys h T tmo (clock w) w)"
      using that by (intro loop_query_times) auto
    then have "list_all (issued_by (clock w + milliseconds (unat tmo) + milliseconds 250 + x))
            (new_events w (snd (WaitForServiceStatus sys h T tmo w)))"
      unfolding Wait_events by (simp add: max_def)
    then show ?thesis
      using r by (simp add: reported_issued_by)
  qed
  from r l d show ?thesis by blast
qed

theorem WaitForServiceStatus_true_iff_reported_witness:
  "fst (WaitForServiceStatus sys_late 2 SERVICE_STOPPED 100 world0)
   \<and> (\<forall>n. sleep_for_extra sys_late n \<le> 0)
   \<and> reported 2 SERVICE_STOPPED
        (new_events world0 (snd (WaitForServiceStatus sys_late 2 SERVICE_STOPPED 100 world0)))
   \<and> reported_by 350000000 2 SERVICE_STOPPED
        (new_events world0 (snd (WaitForServiceStatus sys_late 2 SERVICE_STOPPED 100 world0)))
   \<and> snd (last (trace (snd (WaitForServiceStatus sys_late 2 SERVICE_STOPPED 100 world0)))) =
        EvQueryServiceStatusEx 2 (Inr SERVICE_STOPPED)"
proof -
  have h: "fst (WaitForServiceStatus sys_late 2 SERVICE_STOPPED 100 world0)"
    by (simp add: eval_defs sys_late_def)
  have x: "\<forall>n. sleep_for_extra sys_late n \<le> 0"
    by (simp add: sys_late_def)
  show ?thesis
    using h x WaitForServiceStatus_true_iff_reported [of sys_late 2 SERVICE_STOPPED 100 world0 0]
    by (simp add: milliseconds_def NS_PER_MS_def world0_def)
qed

text \<open>
  Claim C6: every round of the loop issues a status query of its own, and the first
  failed query is fatal. The replies that the call reads are consecutive replies of the
  system, one per round (there is one query more than there are sleeps); and when a query
  of the call fails with error \<open>e\<close>, the call returns false, that query is the last one,
  and the only event after it is the error message for \<open>QueryServiceStatusEx\<close> with
  code \<open>e\<close>: the query is not retried and nothing is slept.
\<close>

theorem failed_query_is_fatal:
  "query_replies (new_events w (snd (WaitForServiceStatus sys h T tmo w))) =
     map (QueryServiceStatusEx_reply sys)
       [n_QueryServiceStatusEx w ..<
        n_QueryServiceStatusEx w
          + length (query_replies (new_events w (snd (WaitForServiceStatus sys h T tmo w))))]
   \<and> length (query_replies (new_events w (snd (WaitForServiceStatus sys h T tmo w)))) =
       Suc (length (sleeps (new_events w (snd (WaitForServiceStatus sys h T tmo w)))))
   \<and> ((t, EvQueryServiceStatusEx h (Inl e))
          \<in> set (new_events w (snd (WaitForServiceStatus sys h T tmo w))) \<longrightarrow>
        fst (WaitForServiceStatus sys h T tmo w) = False
        \<and> last (trace (snd (WaitForServiceStatus sys h T tmo w))) =
            (clock (snd (WaitForServiceStatus sys h T tmo w)),
             EvPrintErrorMessage ''QueryServiceStatusEx'' e)
        \<and> last (butlast (trace (snd (WaitForServiceStatus sys h T tmo w)))) =
            (t, EvQueryServiceStatusEx h (Inl e)))"
proof -
  have ev: "new_events w (snd (WaitForServiceStatus sys h T tmo w)) = loop_events sys h T tmo (clock w) w"
    by (rule Wait_events)
  have w: "WaitForServiceStatus sys h T tmo w = WaitForServiceStatus_loop sys h T tmo (clock w) w"
    by (simp add: WaitForServiceStatus_def Let_def steady_clock_now_def)
  have "length (query_replies (loop_events sys h T tmo (clock w) w)) =
          Suc (length (sleeps (loop_events sys h T tmo (clock w) w)))"
    using loop_counts [of sys h T tmo "clock w" w] by simp
  then show ?thesis
    unfolding ev unfolding w
    using loop_fresh [of sys h T tmo "clock w" w] loop_failed_last [of t h e sys T tmo "clock w" w]
    by blast
qed

theorem failed_query_is_fatal_witness:
  "(250000000, EvQueryServiceStatusEx 2 (Inl ERROR_ACCESS_DENIED))
     \<in> set (new_events world0 (snd (WaitForServiceStatus sys_query_fails 2 SERVICE_STOPPED 30000 world0)))
   \<and> fst (WaitForServiceStatus sys_query_fails 2 SERVICE_STOPPED 30000 world0) = False
   \<and> query_replies (new_events world0 (snd (WaitForServiceStatus sys_query_fails 2 SERVICE_STOPPED 30000 world0)))
        = [Inr SERVICE_STOP_PENDING, Inl ERROR_ACCESS_DENIED]
   \<and> last (trace (snd (WaitForServiceStatus sys_query_fails 2 SERVICE_STOPPED 30000 world0))) =
        (250000000, EvPrintErrorMessage ''QueryServiceStatusEx'' ERROR_ACCESS_DENIED)"
proof -
  have h: "(250000000, EvQueryServiceStatusEx 2 (Inl ERROR_ACCESS_DENIED))
     \<in> set (new_events world0 (snd (WaitForServiceStatus sys_query_fails 2 SERVICE_STOPPED 30000 world0)))"
    by (simp add: eval_defs sys_query_fails_def)
  have c: "clock (snd (WaitForServiceStatus sys_query_fails 2 SERVICE_STOPPED 30000 world0)) = 250000000"
    by (simp add: eval_defs sys_query_fails_def)
  have q: "query_replies (new_events world0 (snd (WaitForServiceStatus sys_query_fails 2 SERVICE_STOPPED 30000 world0)))
        = [Inr SERVICE_STOP_PENDING, Inl ERROR_ACCESS_DENIED]"
    by (simp add: eval_defs sys_query_fails_def)
  show ?thesis
    using h c q
      failed_query_is_fatal [of world0 sys_query_fails 2 SERVICE_STOPPED 30000 250000000 ERROR_ACCESS_DENIED]
    by simp
qed

text \<open>
  Claim C7, as the specification states it: when the state never matches and no query
  fails, the call ends with the timeout and consumes at most \<open>timeoutMillis\<close> plus one
  poll interval of 250 ms. \<open>sleep_for\<close> may block longer than asked. Under
  \<open>sys_oversleep\<close> with a timeout of 260 ms the tests at 0 ms and at 255 ms pass, the
  second sleep ends at 520 ms, and the call returns then: later than 260 ms + 250 ms.
\<close>

theorem wait_exceeds_timeout_plus_interval_counterexample:
  "trace (snd (WaitForServiceStatus sys_oversleep 2 SERVICE_STOPPED 260 world0)) =
     [(0, EvQueryServiceStatusEx 2 (Inr SERVICE_RUNNING)), (0, EvSleep (milliseconds 250)),
      (255000000, EvQueryServiceStatusEx 2 (Inr SERVICE_RUNNING)), (255000000, EvSleep (milliseconds 250)),
      (520000000, EvQueryServiceStatusEx 2 (Inr SERVICE_RUNNING)),
      (520000000, EvTimeoutMessage SERVICE_STOPPED)]
   \<and> \<not> (clock (snd (WaitForServiceStatus sys_oversleep 2 SERVICE_STOPPED 260 world0)) - clock world0
          \<le> milliseconds (unat (260 :: DWORD)) + milliseconds 250)"
  by (simp add: eval_defs sys_oversleep_def)

text \<open>
  Claim C7, amended: when the state never matches and no query fails, the call returns
  false after writing the timeout message, and it returns no later than
  \<open>timeoutMillis + 250 ms + x + q\<close> after its start, where \<open>x\<close> bounds how much longer
  than asked a sleep lasts and \<open>q\<close> bounds the duration of a status query (with exact
  sleeps and instantaneous queries: \<open>timeoutMillis + 250 ms\<close>). Every timeout test
  of the call compares the time elapsed since the one start time read at entry: each
  sleep follows a test that read less than \<open>timeoutMillis\<close>, and the timeout message
  follows a test that read at least \<open>timeoutMillis\<close>.
\<close>

theorem never_matching_wait_times_out:
  fixes tmo :: DWORD
  assumes never: "\<forall>n. \<exists>s. QueryServiceStatusEx_reply sys n = Inr s \<and> s \<noteq> T"
    and q: "\<forall>n. QueryServiceStatusEx_time sys n \<le> q"
    and x: "\<forall>n. sleep_for_extra sys n \<le> x"
  shows "fst (WaitForServiceStatus sys h T tmo w) = False
    \<and> last (trace (snd (WaitForServiceStatus sys h T tmo w))) =
        (clock (snd (WaitForServiceStatus sys h T tmo w)), EvTimeoutMessage T)
    \<and> clock (snd (WaitForServiceStatus sys h T tmo w))
        \<le> clock w + milliseconds (unat tmo) + milliseconds 250 + x + q
    \<and> list_all (check_ok (clock w) tmo)
        (new_events w (snd (WaitForServiceStatus sys h T tmo w)))"
proof -
  have w: "WaitForServiceStatus sys h T tmo w = WaitForServiceStatus_loop sys h T tmo (clock w) w"
    by (simp add: WaitForServiceStatus_def Let_def steady_clock_now_def)
  have "clock (snd (WaitForServiceStatus_loop sys h T tmo (clock w) w)) \<le>
          max (clock w + q) (clock w + milliseconds (unat tmo) + milliseconds 250 + x + q)"
    using q x by (intro loop_clock_bound) auto
  then have "clock (snd (WaitForServiceStatus_loop sys h T tmo (clock w) w))
               \<le> clock w + milliseconds (unat tmo) + milliseconds 250 + x + q"
    by simp
  moreover have "list_all (check_ok (clock w) tmo)
        (new_events w (snd (WaitForServiceStatus_loop sys h T tmo (clock w) w)))"
    using loop_checks [of "clock w" tmo sys h T w] by (simp add: loop_events_def)
  ultimately show ?thesis
    unfolding w using loop_never_matches [of sys T h tmo "clock w" w] never by simp
qed

theorem never_matching_wait_times_out_witness:
  "(\<forall>n. \<exists>s. QueryServiceStatusEx_reply sys_oversleep n = Inr s \<and> s \<noteq> SERVICE_STOPPED)
   \<and> (\<forall>n. QueryServiceStatusEx_time sys_oversleep n \<le> 0)
   \<and> (\<forall>n. sleep_for_extra sys_oversleep n \<le> 15000000)
   \<and> fst (WaitForServiceStatus sys_oversleep 2 SERVICE_STOPPED 260 world0) = False
   \<and> last (trace (snd (WaitForServiceStatus sys_oversleep 2 SERVICE_STOPPED 260 world0))) =
        (520000000, EvTimeoutMessage SERVICE_STOPPED)
   \<and> clock (snd (WaitForServiceStatus sys_oversleep 2 SERVICE_STOPPED 260 world0)) \<le> 525000000"
proof -
  have h1: "\<forall>n. \<exists>s. QueryServiceStatusEx_reply sys_oversleep n = Inr s \<and> s \<noteq> SERVICE_STOPPED"
    by (simp add: sys_oversleep_def SERVICE_RUNNING_def SERVICE_STOPPED_def)
  have h2: "\<forall>n. QueryServiceStatusEx_time sys_oversleep n \<le> 0"
    by (simp add: sys_oversleep_def)
  have h3: "\<forall>n. sleep_for_extra sys_oversleep n \<le> 15000000"
    by (simp add: sys_oversleep_def)
  have c: "clock (snd (WaitForServiceStatus sys_oversleep 2 SERVICE_STOPPED 260 world0)) = 520000000"
    by (simp add: eval_defs sys_oversleep_def)
  show ?thesis
    using h1 h2 h3 c
      never_matching_wait_times_out [OF h1 h2 h3, of 2 260 world0]
    by (simp add: milliseconds_def NS_PER_MS_def world0_def)
qed

text \<open>
  Claim C9: the timeout is tested only after a query that did not match. In any round of
  the loop, whatever the start time and the clock are, a query that reports the target
  state makes the loop return true at once; and if any status query of a call reports the
  target state, at whatever time \<open>t\<close> it was issued, the call returns true and writes no
  timeout message.
\<close>

theorem matching_poll_not_preempted:
  "(QueryServiceStatusEx_reply sys (n_QueryServiceStatusEx w) = Inr T \<longrightarrow>
      WaitForServiceStatus_loop sys h T tmo startTime w =
        (True, snd (QueryServiceStatusEx sys h w)))
   \<and> ((t, EvQueryServiceStatusEx h (Inr T))
          \<in> set (new_events w (snd (WaitForServiceStatus sys h T tmo w))) \<longrightarrow>
        fst (WaitForServiceStatus sys h T tmo w)
        \<and> \<not> timed_out (new_events w (snd (WaitForServiceStatus sys h T tmo w))))"
proof -
  have "fst (WaitForServiceStatus sys h T tmo w)
        \<and> \<not> timed_out (new_events w (snd (WaitForServiceStatus sys h T tmo w)))"
    if "(t, EvQueryServiceStatusEx h (Inr T))
          \<in> set (new_events w (snd (WaitForServiceStatus sys h T tmo w)))"
  proof -
    from that have "reported h T (loop_events sys h T tmo (clock w) w)"
      unfolding Wait_events reported_iff by blast
    then have "fst (WaitForServiceStatus_loop sys h T tmo (clock w) w)"
      by (simp add: loop_result_reported)
    then show ?thesis
      using loop_true_not_timed_out [of sys h T tmo "clock w" w]
      unfolding Wait_events
      by (simp add: WaitForServiceStatus_def Let_def steady_clock_now_def)
  qed
  then show ?thesis
    by (auto simp: loop_reached)
qed

theorem matching_poll_not_preempted_witness:
  "milliseconds (unat (100 :: DWORD)) < 250000000
   \<and> (250000000, EvQueryServiceStatusEx 2 (Inr SERVICE_STOPPED))
        \<in> set (new_events world0 (snd (WaitForServiceStatus sys_late 2 SERVICE_STOPPED 100 world0)))
   \<and> fst (WaitForServiceStatus sys_late 2 SERVICE_STOPPED 100 world0)
   \<and> \<not> timed_out (new_events world0 (snd (WaitForServiceStatus sys_late 2 SERVICE_STOPPED 100 world0)))
   \<and> unat (100 :: DWORD) \<le> elapsed_after_query sys_late 0 (world0\<lparr>clock := 250000000, n_QueryServiceStatusEx := 1\<rparr>)
   \<and> fst (WaitForServiceStatus_loop sys_late 2 SERVICE_STOPPED 100 0
            (world0\<lparr>clock := 250000000, n_QueryServiceStatusEx := 1\<rparr>))"
proof -
  have h1: "(250000000, EvQueryServiceStatusEx 2 (Inr SERVICE_STOPPED))
        \<in> set (new_events world0 (snd (WaitForServiceStatus sys_late 2 SERVICE_STOPPED 100 world0)))"
    by (simp add: eval_defs sys_late_def)
  have h2: "QueryServiceStatusEx_reply sys_late
              (n_QueryServiceStatusEx (world0\<lparr>clock := 250000000, n_QueryServiceStatusEx := 1\<rparr>))
            = Inr SERVICE_STOPPED"
    by (simp add: sys_late_def)
  have h3: "unat (100 :: DWORD) \<le> elapsed_after_query sys_late 0 (world0\<lparr>clock := 250000000, n_QueryServiceStatusEx := 1\<rparr>)"
    by (simp add: eval_defs sys_late_def)
  show ?thesis
    using h1 h2 h3
      matching_poll_not_preempted [of sys_late "world0\<lparr>clock := 250000000, n_QueryServiceStatusEx := 1\<rparr>"
         SERVICE_STOPPED 2 100 0 250000000]
      matching_poll_not_preempted [of sys_late world0 SERVICE_STOPPED 2 100 0 250000000]
    by (simp add: milliseconds_def NS_PER_MS_def)
qed

text \<open>
  Claim C10: for every timeout the call issues at least one status query. With a timeout
  of 0 it issues exactly one query and does not sleep; it returns true if that query
  reports the target state and false otherwise, writing the timeout message when the
  query reported another state and the error message when the query failed.
\<close>

theorem at_least_one_query:
  "0 < length (query_replies (new_events w (snd (WaitForServiceStatus sys h T tmo w))))
   \<and> WaitForServiceStatus sys h T 0 w =
       (QueryServiceStatusEx_reply sys (n_QueryServiceStatusEx w) = Inr T,
        case QueryServiceStatusEx_reply sys (n_QueryServiceStatusEx w) of
          Inl e \<Rightarrow> PrintErrorMessage ''QueryServiceStatusEx'' e (snd (QueryServiceStatusEx sys h w))
        | Inr s \<Rightarrow> if s = T then snd (QueryServiceStatusEx sys h w)
                   else log_event (EvTimeoutMessage T) (snd (QueryServiceStatusEx sys h w)))
   \<and> query_replies (new_events w (snd (WaitForServiceStatus sys h T 0 w))) =
       [QueryServiceStatusEx_reply sys (n_QueryServiceStatusEx w)]
   \<and> sleeps (new_events w (snd (WaitForServiceStatus sys h T 0 w))) = []"
proof -
  have 1: "0 < length (query_replies (new_events w (snd (WaitForServiceStatus sys h T tmo w))))"
    unfolding Wait_events using loop_counts [of sys h T tmo "clock w" w] by simp
  have 2: "WaitForServiceStatus sys h T 0 w =
       (QueryServiceStatusEx_reply sys (n_QueryServiceStatusEx w) = Inr T,
        case QueryServiceStatusEx_reply sys (n_QueryServiceStatusEx w) of
          Inl e \<Rightarrow> PrintErrorMessage ''QueryServiceStatusEx'' e (snd (QueryServiceStatusEx sys h w))
        | Inr s \<Rightarrow> if s = T then snd (QueryServiceStatusEx sys h w)
                   else log_event (EvTimeoutMessage T) (snd (QueryServiceStatusEx sys h w)))"
    by (simp add: WaitForServiceStatus_def Let_def loop_unfold split: sum.splits)
  have 3: "query_replies (new_events w (snd (WaitForServiceStatus sys h T 0 w))) =
             [QueryServiceStatusEx_reply sys (n_QueryServiceStatusEx w)]
           \<and> sleeps (new_events w (snd (WaitForServiceStatus sys h T 0 w))) = []"
    unfolding 2 by (simp add: new_events_def split: sum.splits)
  from 1 2 3 show ?thesis by blast
qed



section \<open>Claims about StopServiceByName, StartServiceByName and main\<close>



text \<open>
  Claim C5: when both handles were opened and the start request is rejected with error
  \<open>e\<close>, \<open>StartServiceByName\<close> returns true exactly when \<open>e\<close> is
  \<open>ERROR_SERVICE_ALREADY_RUNNING\<close>; in both cases it returns after one message and
  the release of its two handles, having issued no status query and slept not at all.
\<close>

theorem start_already_running_returns_at_once:
  assumes scm: "OpenSCManager_reply sys (n_OpenSCManager w) = Inr scm"
    and svc: "OpenService_reply sys (n_OpenService w) = Inr svc"
    and start: "StartService_reply sys (n_StartService w) = Inl e"
  shows "fst (StartServiceByName sys name w) = (e = ERROR_SERVICE_ALREADY_RUNNING)
       \<and> new_events w (snd (StartServiceByName sys name w)) =
            [(clock w, EvOpenSCManager SC_MANAGER_CONNECT (Inr scm)),
             (clock w, EvOpenService scm name (SERVICE_START OR SERVICE_QUERY_STATUS) (Inr svc)),
             (clock w, EvStartService svc (Inl e)),
             (clock w, if e = ERROR_SERVICE_ALREADY_RUNNING
                       then EvWcout ''Service is already running.''
                       else EvPrintErrorMessage ''StartService'' e),
             (clock w, EvCloseServiceHandle svc),
             (clock w, EvCloseServiceHandle scm)]
       \<and> query_replies (new_events w (snd (StartServiceByName sys name w))) = []
       \<and> sleeps (new_events w (snd (StartServiceByName sys name w))) = []"
proof (cases "e = ERROR_SERVICE_ALREADY_RUNNING")
  case True
  with start have "StartService_reply sys (n_StartService w) = Inl ERROR_SERVICE_ALREADY_RUNNING"
    by simp
  from Start_already_running [OF scm svc this, of name] scm svc start True
  show ?thesis by (simp add: new_events_def)
next
  case False
  from Start_rejected [OF scm svc start False, of name] scm svc start False
  show ?thesis by (simp add: new_events_def)
qed

theorem start_already_running_returns_at_once_witness:
  "fst (StartServiceByName sys_already_running serviceName_w32time world0)
   \<and> query_replies (new_events world0
         (snd (StartServiceByName sys_already_running serviceName_w32time world0))) = []
   \<and> sleeps (new_events world0
         (snd (StartServiceByName sys_already_running serviceName_w32time world0))) = []
   \<and> \<not> fst (StartServiceByName sys_start_denied serviceName_w32time world0)
   \<and> query_replies (new_events world0
         (snd (StartServiceByName sys_start_denied serviceName_w32time world0))) = []"
proof -
  have a: "OpenSCManager_reply sys_already_running (n_OpenSCManager world0) = Inr 1"
    "OpenService_reply sys_already_running (n_OpenService world0) = Inr 2"
    "StartService_reply sys_already_running (n_StartService world0) = Inl ERROR_SERVICE_ALREADY_RUNNING"
    by (simp_all add: eval_systems)
  have b: "OpenSCManager_reply sys_start_denied (n_OpenSCManager world0) = Inr 1"
    "OpenService_reply sys_start_denied (n_OpenService world0) = Inr 2"
    "StartService_reply sys_start_denied (n_StartService world0) = Inl ERROR_ACCESS_DENIED"
    "ERROR_ACCESS_DENIED \<noteq> ERROR_SERVICE_ALREADY_RUNNING"
    by (simp_all add: eval_systems ERROR_ACCESS_DENIED_def ERROR_SERVICE_ALREADY_RUNNING_def)
  show ?thesis
    using start_already_running_returns_at_once [OF a, of serviceName_w32time]
      start_already_running_returns_at_once [OF b(1,2,3), of serviceName_w32time] b(4)
    by simp
qed

text \<open>
  Claim C8: whatever the system replies and in whatever world it is called,
  \<open>StopServiceByName\<close> uses only handles that it opened itself and that are still
  open, and has closed every handle it opened when it returns; the same holds for
  \<open>StartServiceByName\<close>. In \<open>main\<close>, the events of the stop phase and the events
  from the end of the stop phase to the end of the start phase each have this property:
  the start phase begins with no handle of the stop phase left open.
\<close>

theorem handles_released_in_each_phase:
  "run_handles (new_events w (snd (StopServiceByName sys name w))) [] = Some []
   \<and> run_handles (new_events w (snd (StartServiceByName sys name w))) [] = Some []
   \<and> run_handles (new_events w (snd (main_stop sys w))) [] = Some []
   \<and> run_handles (new_events (snd (main_stop sys w)) (snd (main_start sys w))) [] = Some []"
proof -
  have "new_events (snd (main_stop sys w)) (snd (main_start sys w)) =
     (clock (snd (main_stop sys w)), EvWcout (''Service successfully stopped.'' @ [CHR 0x0A])) #
     (clock (snd (main_stop sys w)),
      EvWcout (''--- Attempting to start the '' @ [CHR 0x27] @ serviceName_w32time
                 @ [CHR 0x27] @ '' service... ---'')) #
     new_events
       (wcout (''--- Attempting to start the '' @ [CHR 0x27] @ serviceName_w32time
                 @ [CHR 0x27] @ '' service... ---'')
          (wcout (''Service successfully stopped.'' @ [CHR 0x0A]) (snd (main_stop sys w))))
       (snd (main_start sys w))"
    by (rule new_events_append) (rule main_start_trace)
  then show ?thesis
    by (simp add: Stop_handles Start_handles main_stop_calls main_start_def)
qed

theorem handles_released_in_each_phase_witness:
  "new_events world0 (snd (StopServiceByName sys_healthy serviceName_w32time world0)) =
     [(0, EvOpenSCManager SC_MANAGER_CONNECT (Inr 1)),
      (0, EvOpenService 1 serviceName_w32time (SERVICE_STOP OR SERVICE_QUERY_STATUS) (Inr 2)),
      (0, EvControlService 2 SERVICE_CONTROL_STOP (Inr ())),
      (0, EvWcout ''Stop request sent. Waiting for service to terminate...''),
      (0, EvQueryServiceStatusEx 2 (Inr SERVICE_STOP_PENDING)),
      (0, EvSleep (milliseconds 250)),
      (250000000, EvQueryServiceStatusEx 2 (Inr SERVICE_STOPPED)),
      (250000000, EvCloseServiceHandle 2),
      (250000000, EvCloseServiceHandle 1)]
   \<and> run_handles (new_events world0 (snd (StopServiceByName sys_healthy serviceName_w32time world0))) []
       = Some []"
proof -
  have "new_events world0 (snd (StopServiceByName sys_healthy serviceName_w32time world0)) =
     [(0, EvOpenSCManager SC_MANAGER_CONNECT (Inr 1)),
      (0, EvOpenService 1 serviceName_w32time (SERVICE_STOP OR SERVICE_QUERY_STATUS) (Inr 2)),
      (0, EvControlService 2 SERVICE_CONTROL_STOP (Inr ())),
      (0, EvWcout ''Stop request sent. Waiting for service to terminate...''),
      (0, EvQueryServiceStatusEx 2 (Inr SERVICE_STOP_PENDING)),
      (0, EvSleep (milliseconds 250)),
      (250000000, EvQueryServiceStatusEx 2 (Inr SERVICE_STOPPED)),
      (250000000, EvCloseServiceHandle 2),
      (250000000, EvCloseServiceHandle 1)]"
    by (simp add: eval_program eval_defs eval_systems split_beta)
  then show ?thesis
    using handles_released_in_each_phase [of world0 sys_healthy serviceName_w32time]
    by simp
qed

text \<open>
  Claim C2: \<open>main\<close> runs the resync command exactly once when
  \<open>StopServiceByName\<close> and then \<open>StartServiceByName\<close> returned true, and not at all
  otherwise. After a failed stop phase \<open>main\<close> only writes two messages: nothing of
  the start phase happens. After a failed start phase it only writes two messages.
\<close>

theorem resync_iff_start_succeeded:
  "system_calls (new_events w (snd (main sys w))) =
     (if fst (main_stop sys w) \<and> fst (main_start sys w) then [resync_command] else [])
   \<and> (\<not> fst (main_stop sys w) \<longrightarrow>
        trace (snd (main sys w)) =
          trace (snd (main_stop sys w)) @
          [(clock (snd (main_stop sys w)), EvWcerr ''Failed to stop the service. Aborting.''),
           (clock (snd (main_stop sys w)), EvWcout (CHR 0x0A # ''Done.''))])
   \<and> (fst (main_stop sys w) \<and> \<not> fst (main_start sys w) \<longrightarrow>
        trace (snd (main sys w)) =
          trace (snd (main_start sys w)) @
          [(clock (snd (main_start sys w)), EvWcerr ''Failed to start the service.''),
           (clock (snd (main_start sys w)), EvWcout (CHR 0x0A # ''Done.''))])
   \<and> (fst (main_stop sys w) \<and> fst (main_start sys w) \<longrightarrow>
        trace (snd (main sys w)) =
          trace (snd (main_start sys w)) @
          [(clock (snd (main_start sys w)), EvWcout (''Service successfully started.'' @ [CHR 0x0A])),
           (clock (snd (main_start sys w)), EvWcout ''--- Resyncing system time... ---''),
           (clock (snd (main_start sys w)), EvSystem resync_command (system_reply sys)),
           (clock (snd (main_start sys w)),
            if system_reply sys = 0 then EvWcout ''Time resync command sent successfully.''
            else EvWcerr ''Failed to execute time resync command.''),
           (clock (snd (main_start sys w)), EvWcout (CHR 0x0A # ''Done.''))])"
proof -
  have 1: "system_calls (new_events w (snd (main sys w))) = []" if "\<not> fst (main_stop sys w)"
  proof -
    have "new_events w (snd (main sys w)) =
            new_events w (snd (main_stop sys w)) @
            [(clock (snd (main_stop sys w)), EvWcerr ''Failed to stop the service. Aborting.''),
             (clock (snd (main_stop sys w)), EvWcout (CHR 0x0A # ''Done.''))]"
      by (rule new_events_append)
         (simp add: main_trace_stop_failed [OF that] main_stop_extends [symmetric])
    then show ?thesis by (simp add: system_calls_append main_stop_calls)
  qed
  have 2: "system_calls (new_events w (snd (main sys w))) = []"
    if "fst (main_stop sys w)" "\<not> fst (main_start sys w)"
  proof -
    have "new_events w (snd (main sys w)) =
            new_events w (snd (main_start sys w)) @
            [(clock (snd (main_start sys w)), EvWcerr ''Failed to start the service.''),
             (clock (snd (main_start sys w)), EvWcout (CHR 0x0A # ''Done.''))]"
      by (rule new_events_append)
         (simp add: main_trace_start_failed [OF that] main_start_extends' [symmetric])
    then show ?thesis by (simp add: system_calls_append main_start_calls)
  qed
  have 3: "system_calls (new_events w (snd (main sys w))) = [resync_command]"
    if "fst (main_stop sys w)" "fst (main_start sys w)"
  proof -
    have "new_events w (snd (main sys w)) =
            new_events w (snd (main_start sys w)) @
             [(clock (snd (main_start sys w)), EvWcout (''Service successfully started.'' @ [CHR 0x0A])),
              (clock (snd (main_start sys w)), EvWcout ''--- Resyncing system time... ---''),
              (clock (snd (main_start sys w)), EvSystem resync_command (system_reply sys)),
              (clock (snd (main_start sys w)),
               if system_reply sys = 0 then EvWcout ''Time resync command sent successfully.''
               else EvWcerr ''Failed to execute time resync command.''),
              (clock (snd (main_start sys w)), EvWcout (CHR 0x0A # ''Done.''))]"
      by (rule new_events_append)
         (simp add: main_trace_started [OF that] main_start_extends' [symmetric])
    then show ?thesis by (simp add: system_calls_append main_start_calls)
  qed
  from 1 2 3 show ?thesis
    by (auto simp: main_trace_stop_failed main_trace_start_failed main_trace_started)
qed

theorem resync_iff_start_succeeded_witness:
  "fst (main_stop sys_healthy world0) \<and> fst (main_start sys_healthy world0)
   \<and> system_calls (new_events world0 (snd (main sys_healthy world0))) = [resync_command]
   \<and> \<not> fst (main_stop sys_scm_down world0)
   \<and> system_calls (new_events world0 (snd (main sys_scm_down world0))) = []
   \<and> trace (snd (main sys_scm_down world0)) =
        trace (snd (main_stop sys_scm_down world0)) @
        [(clock (snd (main_stop sys_scm_down world0)), EvWcerr ''Failed to stop the service. Aborting.''),
         (clock (snd (main_stop sys_scm_down world0)), EvWcout (CHR 0x0A # ''Done.''))]
   \<and> fst (main_stop sys_start_denied world0) \<and> \<not> fst (main_start sys_start_denied world0)
   \<and> system_calls (new_events world0 (snd (main sys_start_denied world0))) = []"
  using healthy_run scm_down_run start_denied_run
    resync_iff_start_succeeded [of world0 sys_healthy]
    resync_iff_start_succeeded [of world0 sys_scm_down]
    resync_iff_start_succeeded [of world0 sys_start_denied]
  by simp

text \<open>
  Claim C3, as the specification states it: the exit status is 1 when the stop phase
  failed, 2 when the start phase failed, 3 when the resync command returned nonzero.
  \<open>main\<close> ends with \<open>return 0\<close> on every path: the exit status is neither 1 when
  the service control manager refuses the connection, nor 2 when the start request is
  denied, nor 3 when the resync command returns 1.
\<close>

theorem exit_status_counterexample:
  "\<not> fst (main_stop sys_scm_down world0) \<and> fst (main sys_scm_down world0) \<noteq> 1
   \<and> fst (main_stop sys_start_denied world0) \<and> \<not> fst (main_start sys_start_denied world0)
   \<and> fst (main sys_start_denied world0) \<noteq> 2
   \<and> fst (main_stop sys_resync_fails world0) \<and> fst (main_start sys_resync_fails world0)
   \<and> system_reply sys_resync_fails \<noteq> 0 \<and> fst (main sys_resync_fails world0) \<noteq> 3"
  using scm_down_run start_denied_run resync_fails_run
  by (simp add: main_result)

text \<open>
  Claim C3, amended: the exit status of the process is 0 in every outcome. The outcome
  is told by the last message written before \<open>Done.\<close>: the stop phase failed, the
  start phase failed, the resync command returned 0, or the resync command returned
  something else (a command that could not be invoked is not told apart from one that
  failed).
\<close>

theorem exit_status_always_zero:
  "fst (main sys w) = 0
   \<and> snd (last (butlast (trace (snd (main sys w))))) =
       (if \<not> fst (main_stop sys w) then EvWcerr ''Failed to stop the service. Aborting.''
        else if \<not> fst (main_start sys w) then EvWcerr ''Failed to start the service.''
        else if system_reply sys = 0 then EvWcout ''Time resync command sent successfully.''
        else EvWcerr ''Failed to execute time resync command.'')"
  by (simp add: main_result butlast_append resynced_fields)

theorem exit_status_always_zero_witness:
  "fst (main sys_resync_fails world0) = 0
   \<and> snd (last (butlast (trace (snd (main sys_resync_fails world0))))) =
       EvWcerr ''Failed to execute time resync command.''
   \<and> fst (main sys_scm_down world0) = 0
   \<and> snd (last (butlast (trace (snd (main sys_scm_down world0))))) =
       EvWcerr ''Failed to stop the service. Aborting.''"
  using scm_down_run resync_fails_run
    exit_status_always_zero [of sys_resync_fails world0]
    exit_status_always_zero [of sys_scm_down world0]
  by simp

end
